theory Spec2Isabelle
  imports Complex_Main "HOL-Library.AList"
begin

chapter \<open>The model\<close>

section \<open>JavaScript values\<close>

text \<open>
  A JavaScript expression of type \<open>T | null | undefined\<close> is a value of \<open>T maybe\<close>.
  A nullable database column holds \<open>Null\<close> or \<open>Def v\<close>, an optional field of a parsed
  request holds \<open>Undefined\<close> or \<open>Def v\<close>. The strict comparison \<open>a !== b\<close> of two such
  values is inequality in HOL: in particular \<open>null !== undefined\<close> is true.
\<close>

datatype 'a maybe = Undefined | Null | Def 'a

text \<open>
  The result of \<open>JSON.parse\<close>: an object lists its properties in enumeration order. A
  number is a real; the route computes with none of the numbers of a body.
\<close>

datatype json =
    JNull
  | JBool bool
  | JNum real
  | JStr string
  | JArr "json list"
  | JObj "(string \<times> json) list"

text \<open>A \<open>Date\<close>: its time value in milliseconds, or the invalid date (time value NaN).\<close>

datatype date = Date int | InvalidDate

text \<open>Truthiness, as \<open>if (x)\<close>, \<open>!x\<close>, \<open>x || y\<close> and \<open>x && y\<close> test it.\<close>

fun truthyString :: "string maybe \<Rightarrow> bool" where
  "truthyString (Def s) = (s \<noteq> [])"
| "truthyString _ = False"

fun truthyObject :: "'a maybe \<Rightarrow> bool" where
  "truthyObject (Def _) = True"
| "truthyObject _ = False"

fun truthyBool :: "bool maybe \<Rightarrow> bool" where
  "truthyBool (Def b) = b"
| "truthyBool _ = False"

fun truthyJson :: "json maybe \<Rightarrow> bool" where
  "truthyJson (Def JNull) = False"
| "truthyJson (Def (JBool b)) = b"
| "truthyJson (Def (JNum n)) = (n \<noteq> 0)"
| "truthyJson (Def (JStr s)) = (s \<noteq> [])"
| "truthyJson (Def (JArr _)) = True"
| "truthyJson (Def (JObj _)) = True"
| "truthyJson _ = False"

section \<open>The database, as the sync route uses it\<close>

record member_row =
  m_workspaceId :: string
  m_userId :: string
  m_role :: string

text \<open>
  The calls the route makes on \<open>db\<close>. A call may reject (the promise throws at its
  \<open>await\<close>); \<open>rejecting q = Some msg\<close> says that call \<open>q\<close> rejects with \<open>Error(msg)\<close>.
\<close>

datatype db_query =
    SelectExisting
  | SelectWorkspace
  | SelectWorkspaceMember
  | SelectWorkflow
  | WriteWorkflow

section \<open>The workspace membership cache\<close>

record cache_entry =
  role :: string
  expires :: int

text \<open>
  \<open>workspaceMembershipCache\<close> is a \<open>Map\<close>: its entries in insertion order, one per key.
  \<open>Map.set\<close> on a key that is present keeps its place (\<open>AList.update\<close>), \<open>Map.delete\<close>
  removes it (\<open>AList.delete\<close>), \<open>Map.get\<close> is \<open>map_of\<close>.
\<close>

type_synonym membership_cache = "(string \<times> cache_entry) list"

definition CACHE_TTL :: int where
  "CACHE_TTL = 60000"

definition MAX_CACHE_SIZE :: nat where
  "MAX_CACHE_SIZE = 1000"

text \<open>
  \<open>cleanupExpiredCacheEntries\<close>: the loop deletes every entry with \<open>expires <= now\<close>; if
  more than \<open>MAX_CACHE_SIZE\<close> entries are left, the entries are sorted by \<open>expires\<close>
  (\<open>Array.prototype.sort\<close> is stable, as \<open>sort_key\<close> is) and the first
  \<open>size - MAX_CACHE_SIZE\<close> of them are deleted.
\<close>

definition removeExpired :: "int \<Rightarrow> membership_cache \<Rightarrow> membership_cache" where
  "removeExpired now c = filter (\<lambda>(key, v). \<not> expires v \<le> now) c"

definition cleanupExpiredCacheEntries :: "int \<Rightarrow> membership_cache \<Rightarrow> membership_cache" where
  "cleanupExpiredCacheEntries now c =
     (let c1 = removeExpired now c in
      if length c1 > MAX_CACHE_SIZE then
        (let entries = sort_key (\<lambda>(key, v). expires v) c1;
             toRemove = take (length c1 - MAX_CACHE_SIZE) entries
         in fold (\<lambda>(key, v) m. AList.delete key m) toRemove c1)
      else c1)"

text \<open>The first step of \<open>verifyWorkspaceMembership\<close>: the opportunistic cleanup.\<close>

definition opportunisticCleanup :: "int \<Rightarrow> membership_cache \<Rightarrow> membership_cache" where
  "opportunisticCleanup now c =
     (if length c > MAX_CACHE_SIZE div 2 then cleanupExpiredCacheEntries now c else c)"

definition cacheKey :: "string \<Rightarrow> string \<Rightarrow> string" where
  "cacheKey userId workspaceId = userId @ '':'' @ workspaceId"

text \<open>
  The membership query: the rows of \<open>workspaceMember\<close> for the workspace and the user,
  \<open>rows[0]\<close> of them. \<open>Inl msg\<close> is the rejected query.
\<close>

definition selectMembership ::
  "(db_query \<Rightarrow> string option) \<Rightarrow> member_row list \<Rightarrow> string \<Rightarrow> string \<Rightarrow> string + string option" where
  "selectMembership rejecting members workspaceId userId =
     (case rejecting SelectWorkspaceMember of
        Some msg \<Rightarrow> Inl msg
      | None \<Rightarrow>
          (case filter (\<lambda>m. m_workspaceId m = workspaceId \<and> m_userId m = userId) members of
             [] \<Rightarrow> Inr None
           | m # _ \<Rightarrow> Inr (Some (m_role m))))"

text \<open>
  The clock is read three times: by the cleanup, by the test of the cached entry, and,
  after the query has been awaited, when the new entry is stored.
\<close>

record membership_clock =
  cleanupNow :: int
  checkNow :: int
  storeNow :: int

text \<open>
  The result: the role (\<open>Null\<close> for JavaScript's \<open>null\<close>), the cache as the call leaves it,
  and whether the database was queried.
\<close>

record membership_result =
  vr_role :: "string maybe"
  vr_cache :: membership_cache
  vr_queried :: bool

text \<open>The second half: the cache has no usable entry, the database is asked.\<close>

definition queryMembership ::
  "(db_query \<Rightarrow> string option) \<Rightarrow> member_row list \<Rightarrow> int \<Rightarrow> membership_cache
     \<Rightarrow> string \<Rightarrow> string \<Rightarrow> membership_result" where
  "queryMembership rejecting members now c1 userId workspaceId =
     (case selectMembership rejecting members workspaceId userId of
        Inr (Some r) \<Rightarrow>
          \<lparr>vr_role = Def r,
           vr_cache = AList.update (cacheKey userId workspaceId)
                        \<lparr>role = r, expires = now + CACHE_TTL\<rparr> c1,
           vr_queried = True\<rparr>
      | Inr None \<Rightarrow> \<lparr>vr_role = Null, vr_cache = c1, vr_queried = True\<rparr>
      | Inl msg \<Rightarrow> \<lparr>vr_role = Null, vr_cache = c1, vr_queried = True\<rparr>)"

definition verifyWorkspaceMembership ::
  "(db_query \<Rightarrow> string option) \<Rightarrow> member_row list \<Rightarrow> membership_clock \<Rightarrow> membership_cache
     \<Rightarrow> string \<Rightarrow> string \<Rightarrow> membership_result" where
  "verifyWorkspaceMembership rejecting members clock cache userId workspaceId =
     (let c1 = opportunisticCleanup (cleanupNow clock) cache in
      case map_of c1 (cacheKey userId workspaceId) of
        Some cached \<Rightarrow>
          if expires cached > checkNow clock then
            \<lparr>vr_role = Def (role cached), vr_cache = c1, vr_queried = False\<rparr>
          else queryMembership rejecting members (storeNow clock) c1 userId workspaceId
      | None \<Rightarrow> queryMembership rejecting members (storeNow clock) c1 userId workspaceId)"

text \<open>The cache holds an entry for the key whose expiry is strictly after \<open>t\<close>.\<close>

definition holdsFresh :: "membership_cache \<Rightarrow> string \<Rightarrow> int \<Rightarrow> bool" where
  "holdsFresh c key t = (case map_of c key of Some e \<Rightarrow> expires e > t | None \<Rightarrow> False)"

section \<open>The request schemas\<close>

text \<open>
  An issue of a \<open>ZodError\<close>: its code and the path of the value it is about. A schema
  parses a value that may be missing (\<open>None\<close> is \<open>undefined\<close>) at a path, and returns
  the issues or the parsed value.
\<close>

datatype issue_code = invalid_type | invalid_enum_value | invalid_union

type_synonym zod_issue = "issue_code \<times> string list"

type_synonym 'a schema = "string list \<Rightarrow> json option \<Rightarrow> zod_issue list + 'a"

definition zString :: "string schema" where
  "zString p v = (case v of Some (JStr s) \<Rightarrow> Inr s | _ \<Rightarrow> Inl [(invalid_type, p)])"

definition zNumber :: "real schema" where
  "zNumber p v = (case v of Some (JNum n) \<Rightarrow> Inr n | _ \<Rightarrow> Inl [(invalid_type, p)])"

definition zBoolean :: "bool schema" where
  "zBoolean p v = (case v of Some (JBool b) \<Rightarrow> Inr b | _ \<Rightarrow> Inl [(invalid_type, p)])"

text \<open>
  \<open>z.record(z.any())\<close> and \<open>z.array(z.any())\<close>: any object, any array. A record schema
  parses the value of every property and builds a new object of the parsed values, in
  which it leaves out the property named \<open>__proto__\<close>.
\<close>

definition zRecordAny :: "(string \<times> json) list schema" where
  "zRecordAny p v =
     (case v of
        Some (JObj kvs) \<Rightarrow> Inr (filter (\<lambda>(k, j). k \<noteq> ''__proto__'') kvs)
      | _ \<Rightarrow> Inl [(invalid_type, p)])"

definition zArrayAny :: "json list schema" where
  "zArrayAny p v = (case v of Some (JArr xs) \<Rightarrow> Inr xs | _ \<Rightarrow> Inl [(invalid_type, p)])"

text \<open>\<open>.optional()\<close>, \<open>.nullable().optional()\<close> and \<open>.default({})\<close> on a record schema.\<close>

definition zOptional :: "'a schema \<Rightarrow> 'a maybe schema" where
  "zOptional inner p v =
     (case v of None \<Rightarrow> Inr Undefined | Some _ \<Rightarrow> map_sum id Def (inner p v))"

definition zNullableOptional :: "'a schema \<Rightarrow> 'a maybe schema" where
  "zNullableOptional inner p v =
     (case v of None \<Rightarrow> Inr Undefined | Some JNull \<Rightarrow> Inr Null | Some _ \<Rightarrow> map_sum id Def (inner p v))"

definition zRecordAnyDefault :: "(string \<times> json) list schema" where
  "zRecordAnyDefault p v = (case v of None \<Rightarrow> Inr [] | Some _ \<Rightarrow> zRecordAny p v)"

text \<open>
  An object schema parses every property of its shape, in the order of the shape, and
  reports the issues of all of them; properties outside the shape are dropped.
\<close>

definition zAnd :: "zod_issue list + ('a \<Rightarrow> 'b) \<Rightarrow> zod_issue list + 'a \<Rightarrow> zod_issue list + 'b" where
  "zAnd f x =
     (case f of
        Inl e \<Rightarrow> (case x of Inl e' \<Rightarrow> Inl (e @ e') | Inr _ \<Rightarrow> Inl e)
      | Inr g \<Rightarrow> (case x of Inl e' \<Rightarrow> Inl e' | Inr a \<Rightarrow> Inr (g a)))"

datatype marketplace_status = StatusOwner | StatusTemp

record marketplace_data =
  md_id :: string
  md_status :: marketplace_status

definition zStatusEnum :: "marketplace_status schema" where
  "zStatusEnum p v =
     (case v of
        Some (JStr s) \<Rightarrow>
          if s = ''owner'' then Inr StatusOwner
          else if s = ''temp'' then Inr StatusTemp
          else Inl [(invalid_enum_value, p)]
      | _ \<Rightarrow> Inl [(invalid_type, p)])"

definition zMarketplaceObject :: "marketplace_data schema" where
  "zMarketplaceObject p v =
     (case v of
        Some (JObj kvs) \<Rightarrow>
          zAnd (zAnd (Inr (\<lambda>i s. \<lparr>md_id = i, md_status = s\<rparr>))
                  (zString (p @ [''id'']) (map_of kvs ''id'')))
               (zStatusEnum (p @ [''status'']) (map_of kvs ''status''))
      | _ \<Rightarrow> Inl [(invalid_type, p)])"

definition MarketplaceDataSchema :: "marketplace_data maybe schema" where
  "MarketplaceDataSchema = zNullableOptional zMarketplaceObject"

text \<open>
  The parsed \<open>state\<close> of a workflow. \<open>deployedAt\<close> is a union of a string and a date,
  optional, transformed: a string \<open>val\<close> becomes \<open>new Date(val)\<close> (the parameter
  \<open>newDate\<close>; it may be the invalid date). A parsed JSON body holds no \<open>Date\<close>.
\<close>

record workflow_state =
  ws_blocks :: "(string \<times> json) list"
  ws_edges :: "json list"
  ws_loops :: "(string \<times> json) list"
  ws_parallels :: "(string \<times> json) list"
  ws_lastSaved :: "real maybe"
  ws_isDeployed :: "bool maybe"
  ws_deployedAt :: "date maybe"
  ws_isPublished :: "bool maybe"
  ws_marketplaceData :: "marketplace_data maybe"

definition zDeployedAt :: "(string \<Rightarrow> date) \<Rightarrow> date maybe schema" where
  "zDeployedAt newDate p v =
     (case v of
        None \<Rightarrow> Inr Undefined
      | Some (JStr s) \<Rightarrow> Inr (Def (newDate s))
      | Some _ \<Rightarrow> Inl [(invalid_union, p)])"

definition WorkflowStateSchema :: "(string \<Rightarrow> date) \<Rightarrow> workflow_state schema" where
  "WorkflowStateSchema newDate p v =
     (case v of
        Some (JObj kvs) \<Rightarrow>
          zAnd (zAnd (zAnd (zAnd (zAnd (zAnd (zAnd (zAnd (zAnd
            (Inr (\<lambda>b e l pa ls d da ip m.
               \<lparr>ws_blocks = b, ws_edges = e, ws_loops = l, ws_parallels = pa, ws_lastSaved = ls,
                ws_isDeployed = d, ws_deployedAt = da, ws_isPublished = ip, ws_marketplaceData = m\<rparr>))
            (zRecordAny (p @ [''blocks'']) (map_of kvs ''blocks'')))
            (zArrayAny (p @ [''edges'']) (map_of kvs ''edges'')))
            (zRecordAnyDefault (p @ [''loops'']) (map_of kvs ''loops'')))
            (zRecordAnyDefault (p @ [''parallels'']) (map_of kvs ''parallels'')))
            (zOptional zNumber (p @ [''lastSaved'']) (map_of kvs ''lastSaved'')))
            (zOptional zBoolean (p @ [''isDeployed'']) (map_of kvs ''isDeployed'')))
            (zDeployedAt newDate (p @ [''deployedAt'']) (map_of kvs ''deployedAt'')))
            (zOptional zBoolean (p @ [''isPublished'']) (map_of kvs ''isPublished'')))
            (MarketplaceDataSchema (p @ [''marketplaceData'']) (map_of kvs ''marketplaceData''))
      | _ \<Rightarrow> Inl [(invalid_type, p)])"

record client_workflow =
  cw_id :: string
  cw_name :: string
  cw_description :: "string maybe"
  cw_color :: "string maybe"
  cw_state :: workflow_state
  cw_marketplaceData :: "marketplace_data maybe"
  cw_workspaceId :: "string maybe"
  cw_folderId :: "string maybe"

definition WorkflowSchema :: "(string \<Rightarrow> date) \<Rightarrow> client_workflow schema" where
  "WorkflowSchema newDate p v =
     (case v of
        Some (JObj kvs) \<Rightarrow>
          zAnd (zAnd (zAnd (zAnd (zAnd (zAnd (zAnd (zAnd
            (Inr (\<lambda>i n d c s m w f.
               \<lparr>cw_id = i, cw_name = n, cw_description = d, cw_color = c, cw_state = s,
                cw_marketplaceData = m, cw_workspaceId = w, cw_folderId = f\<rparr>))
            (zString (p @ [''id'']) (map_of kvs ''id'')))
            (zString (p @ [''name'']) (map_of kvs ''name'')))
            (zOptional zString (p @ [''description'']) (map_of kvs ''description'')))
            (zOptional zString (p @ [''color'']) (map_of kvs ''color'')))
            (WorkflowStateSchema newDate (p @ [''state'']) (map_of kvs ''state'')))
            (MarketplaceDataSchema (p @ [''marketplaceData'']) (map_of kvs ''marketplaceData'')))
            (zOptional zString (p @ [''workspaceId'']) (map_of kvs ''workspaceId'')))
            (zNullableOptional zString (p @ [''folderId'']) (map_of kvs ''folderId''))
      | _ \<Rightarrow> Inl [(invalid_type, p)])"

text \<open>
  \<open>z.record(z.string(), WorkflowSchema)\<close>: the value of every property of the object is
  parsed as a workflow, that of a property named \<open>__proto__\<close> too, which the parsed
  record then leaves out.
\<close>

fun zWorkflowEntries ::
  "(string \<Rightarrow> date) \<Rightarrow> string list \<Rightarrow> (string \<times> json) list
     \<Rightarrow> zod_issue list + (string \<times> client_workflow) list" where
  "zWorkflowEntries newDate p [] = Inr []"
| "zWorkflowEntries newDate p ((k, j) # kvs) =
     zAnd (zAnd (Inr (\<lambda>w ws. if k = ''__proto__'' then ws else (k, w) # ws))
             (WorkflowSchema newDate (p @ [k]) (Some j)))
          (zWorkflowEntries newDate p kvs)"

definition zWorkflowRecord :: "(string \<Rightarrow> date) \<Rightarrow> (string \<times> client_workflow) list schema" where
  "zWorkflowRecord newDate p v =
     (case v of
        Some (JObj kvs) \<Rightarrow> zWorkflowEntries newDate p kvs
      | _ \<Rightarrow> Inl [(invalid_type, p)])"

record sync_payload =
  sp_workflows :: "(string \<times> client_workflow) list"
  sp_workspaceId :: "string maybe"

definition SyncPayloadSchema :: "(string \<Rightarrow> date) \<Rightarrow> sync_payload schema" where
  "SyncPayloadSchema newDate p v =
     (case v of
        Some (JObj kvs) \<Rightarrow>
          zAnd (zAnd (Inr (\<lambda>ws w. \<lparr>sp_workflows = ws, sp_workspaceId = w\<rparr>))
                  (zWorkflowRecord newDate (p @ [''workflows'']) (map_of kvs ''workflows'')))
               (zOptional zString (p @ [''workspaceId'']) (map_of kvs ''workspaceId''))
      | _ \<Rightarrow> Inl [(invalid_type, p)])"

text \<open>\<open>SyncPayloadSchema.parse(body)\<close>: \<open>Inl\<close> is the thrown \<open>ZodError\<close>, with its issues.\<close>

definition parseSyncPayload :: "(string \<Rightarrow> date) \<Rightarrow> json \<Rightarrow> zod_issue list + sync_payload" where
  "parseSyncPayload newDate body = SyncPayloadSchema newDate [] (Some body)"

section \<open>The workflow table and the operations on it\<close>

text \<open>
  The value of the \<open>state\<close> column as the route hands it to the database: the
  \<open>jsonBlob\<close> of the normalized save, or the parsed state of the client.
\<close>

datatype state_value = JsonBlob json | ClientState workflow_state

text \<open>
  A row of \<open>workflow\<close>, with the columns the route names. \<open>db.insert(workflow).values\<close>
  takes an object of the same shape, in which a property may be \<open>undefined\<close>.
\<close>

record workflow_row =
  row_id :: string
  row_userId :: string
  row_workspaceId :: "string maybe"
  row_folderId :: "string maybe"
  row_name :: string
  row_description :: "string maybe"
  row_color :: "string maybe"
  row_state :: state_value
  row_marketplaceData :: "marketplace_data maybe"
  row_isDeployed :: bool
  row_deployedAt :: "date maybe"
  row_deployedState :: "json maybe"
  row_lastSynced :: date
  row_createdAt :: date
  row_updatedAt :: date

text \<open>
  \<open>updateData\<close> is an object that starts empty: \<open>None\<close> is a property that was never
  assigned, \<open>Some v\<close> one that was assigned \<open>v\<close>.
\<close>

record update_data =
  ud_name :: "string option"
  ud_description :: "string maybe option"
  ud_color :: "string maybe option"
  ud_workspaceId :: "string maybe option"
  ud_folderId :: "string maybe option"
  ud_marketplaceData :: "marketplace_data maybe option"
  ud_state :: "state_value option"
  ud_isDeployed :: "bool option"
  ud_deployedAt :: "date maybe option"
  ud_deployedState :: "json maybe option"
  ud_lastSynced :: "date option"
  ud_updatedAt :: "date option"

definition emptyUpdateData :: update_data where
  "emptyUpdateData =
     \<lparr>ud_name = None, ud_description = None, ud_color = None, ud_workspaceId = None,
      ud_folderId = None, ud_marketplaceData = None, ud_state = None, ud_isDeployed = None,
      ud_deployedAt = None, ud_deployedState = None, ud_lastSynced = None, ud_updatedAt = None\<rparr>"

text \<open>
  \<open>Insert v\<close> is \<open>db.insert(workflow).values(v)\<close>; \<open>Update u id\<close> is
  \<open>db.update(workflow).set(u).where(eq(workflow.id, id))\<close>.
\<close>

datatype operation = Insert workflow_row | Update update_data string

record database =
  workflowTable :: "workflow_row list"
  workspaceTable :: "string list"
  workspaceMemberTable :: "member_row list"
  rejecting :: "db_query \<Rightarrow> string option"

text \<open>
  Modelled from the spec: the database and its ORM are an external collaborator, the
  source of truth. An update writes the assigned properties that are not \<open>undefined\<close>
  into every row with the id; an insert adds the row, a property that is \<open>undefined\<close>
  stored as null.
\<close>

fun assigned :: "'a maybe option \<Rightarrow> 'a maybe \<Rightarrow> 'a maybe" where
  "assigned None old = old"
| "assigned (Some Undefined) old = old"
| "assigned (Some v) old = v"

fun assignedValue :: "'a option \<Rightarrow> 'a \<Rightarrow> 'a" where
  "assignedValue None old = old"
| "assignedValue (Some v) old = v"

definition applyUpdate :: "update_data \<Rightarrow> workflow_row \<Rightarrow> workflow_row" where
  "applyUpdate u w =
     w\<lparr>row_name := assignedValue (ud_name u) (row_name w),
       row_description := assigned (ud_description u) (row_description w),
       row_color := assigned (ud_color u) (row_color w),
       row_workspaceId := assigned (ud_workspaceId u) (row_workspaceId w),
       row_folderId := assigned (ud_folderId u) (row_folderId w),
       row_marketplaceData := assigned (ud_marketplaceData u) (row_marketplaceData w),
       row_state := assignedValue (ud_state u) (row_state w),
       row_isDeployed := assignedValue (ud_isDeployed u) (row_isDeployed w),
       row_deployedAt := assigned (ud_deployedAt u) (row_deployedAt w),
       row_deployedState := assigned (ud_deployedState u) (row_deployedState w),
       row_lastSynced := assignedValue (ud_lastSynced u) (row_lastSynced w),
       row_updatedAt := assignedValue (ud_updatedAt u) (row_updatedAt w)\<rparr>"

fun stored :: "'a maybe \<Rightarrow> 'a maybe" where
  "stored Undefined = Null"
| "stored v = v"

definition storedRow :: "workflow_row \<Rightarrow> workflow_row" where
  "storedRow v =
     v\<lparr>row_workspaceId := stored (row_workspaceId v),
       row_folderId := stored (row_folderId v),
       row_description := stored (row_description v),
       row_color := stored (row_color v),
       row_marketplaceData := stored (row_marketplaceData v),
       row_deployedAt := stored (row_deployedAt v),
       row_deployedState := stored (row_deployedState v)\<rparr>"

fun execOperation :: "operation \<Rightarrow> workflow_row list \<Rightarrow> workflow_row list" where
  "execOperation (Insert v) rows = rows @ [storedRow v]"
| "execOperation (Update u i) rows = map (\<lambda>w. if row_id w = i then applyUpdate u w else w) rows"

definition execOperations :: "operation list \<Rightarrow> workflow_row list \<Rightarrow> workflow_row list" where
  "execOperations ops rows = fold execOperation ops rows"

section \<open>The sync route: one client workflow\<close>

text \<open>
  What the route takes from outside this file. \<open>newDate\<close> is \<open>new Date(string)\<close>, the
  two \<open>stringify\<close> functions are \<open>JSON.stringify\<close> on a state and on a marketplace
  object, and \<open>saveWorkflowToNormalizedTables\<close> is the helper of
  \<open>@/lib/workflows/db-helpers\<close>, which answers with a result object.
\<close>

record normalized_state =
  ns_blocks :: "(string \<times> json) list"
  ns_edges :: "json list"
  ns_loops :: "(string \<times> json) list"
  ns_parallels :: "(string \<times> json) list"
  ns_lastSaved :: "real maybe"
  ns_isDeployed :: "bool maybe"
  ns_deployedAt :: "date maybe"
  ns_deploymentStatuses :: "(string \<times> json) list"
  ns_hasActiveSchedule :: "json maybe"
  ns_hasActiveWebhook :: "json maybe"

record save_result =
  sr_success :: bool
  sr_jsonBlob :: "json maybe"
  sr_error :: "string maybe"

record externals =
  newDate :: "string \<Rightarrow> date"
  stringifyState :: "state_value \<Rightarrow> string"
  stringifyMarketplace :: "marketplace_data \<Rightarrow> string"
  saveWorkflowToNormalizedTables :: "string \<Rightarrow> normalized_state \<Rightarrow> save_result"

text \<open>\<open>JSON.stringify(x)\<close>: \<open>undefined\<close> for \<open>undefined\<close>, the text \<open>null\<close> for \<open>null\<close>.\<close>

fun stringifyMaybe :: "('a \<Rightarrow> string) \<Rightarrow> 'a maybe \<Rightarrow> string maybe" where
  "stringifyMaybe f Undefined = Undefined"
| "stringifyMaybe f Null = Def ''null''"
| "stringifyMaybe f (Def v) = Def (f v)"

text \<open>\<open>x || null\<close> for a string and for an object, \<open>a || b\<close> for two strings.\<close>

definition stringOrNull :: "string maybe \<Rightarrow> string maybe" where
  "stringOrNull x = (if truthyString x then x else Null)"

definition objectOrNull :: "'a maybe \<Rightarrow> 'a maybe" where
  "objectOrNull x = (if truthyObject x then x else Null)"

definition stringOr :: "string maybe \<Rightarrow> string maybe \<Rightarrow> string maybe" where
  "stringOr a b = (if truthyString a then a else b)"

text \<open>The time value of a date; \<open>d ? new Date(d).getTime() : null\<close>; \<open>!==\<close> on the results.\<close>

datatype js_number = Num int | NaN

fun getTime :: "date \<Rightarrow> js_number" where
  "getTime (Date n) = Num n"
| "getTime InvalidDate = NaN"

fun timeOrNull :: "date maybe \<Rightarrow> js_number maybe" where
  "timeOrNull (Def d) = Def (getTime d)"
| "timeOrNull _ = Null"

definition strictNeqNumber :: "js_number maybe \<Rightarrow> js_number maybe \<Rightarrow> bool" where
  "strictNeqNumber a b = (a \<noteq> b \<or> a = Def NaN)"

text \<open>
  The legacy migration of a published workflow: \<open>isPublished\<close> without
  \<open>marketplaceData\<close> gives the workflow an owner's entry.
\<close>

definition migrateLegacyPublished :: "client_workflow \<Rightarrow> client_workflow" where
  "migrateLegacyPublished cw =
     (if truthyBool (ws_isPublished (cw_state cw)) \<and> \<not> truthyObject (cw_marketplaceData cw)
      then cw\<lparr>cw_marketplaceData := Def \<lparr>md_id = cw_id cw, md_status = StatusOwner\<rparr>\<rparr>
      else cw)"

definition effectiveWorkspaceId :: "client_workflow \<Rightarrow> string maybe \<Rightarrow> string maybe" where
  "effectiveWorkspaceId cw workspaceId = stringOr (cw_workspaceId cw) workspaceId"

text \<open>
  The argument of the normalized save. The parsed state is an object of the schema's
  shape: \<open>blocks\<close>, \<open>edges\<close>, \<open>loops\<close> and \<open>parallels\<close> are objects and arrays (truthy), and
  \<open>deploymentStatuses\<close>, \<open>hasActiveSchedule\<close> and \<open>hasActiveWebhook\<close> are not properties of
  it (\<open>undefined\<close>).
\<close>

definition normalizedArgs :: "client_workflow \<Rightarrow> normalized_state" where
  "normalizedArgs cw =
     \<lparr>ns_blocks = ws_blocks (cw_state cw),
      ns_edges = ws_edges (cw_state cw),
      ns_loops = ws_loops (cw_state cw),
      ns_parallels = ws_parallels (cw_state cw),
      ns_lastSaved = ws_lastSaved (cw_state cw),
      ns_isDeployed = ws_isDeployed (cw_state cw),
      ns_deployedAt = ws_deployedAt (cw_state cw),
      ns_deploymentStatuses = [],
      ns_hasActiveSchedule = Undefined,
      ns_hasActiveWebhook = Undefined\<rparr>"

definition stateToSave :: "save_result \<Rightarrow> client_workflow \<Rightarrow> state_value" where
  "stateToSave normalizedResult cw =
     (if sr_success normalizedResult \<and> truthyJson (sr_jsonBlob normalizedResult)
      then (case sr_jsonBlob normalizedResult of
              Def blob \<Rightarrow> JsonBlob blob
            | _ \<Rightarrow> ClientState (cw_state cw))
      else ClientState (cw_state cw))"

definition insertValues ::
  "string \<Rightarrow> date \<Rightarrow> string maybe \<Rightarrow> state_value \<Rightarrow> client_workflow \<Rightarrow> workflow_row" where
  "insertValues userId now effective toSave cw =
     \<lparr>row_id = cw_id cw,
      row_userId = userId,
      row_workspaceId = effective,
      row_folderId = stringOrNull (cw_folderId cw),
      row_name = cw_name cw,
      row_description = cw_description cw,
      row_color = cw_color cw,
      row_state = toSave,
      row_marketplaceData = objectOrNull (cw_marketplaceData cw),
      row_isDeployed = truthyBool (ws_isDeployed (cw_state cw)),
      row_deployedAt = objectOrNull (ws_deployedAt (cw_state cw)),
      row_deployedState = Null,
      row_lastSynced = now,
      row_createdAt = now,
      row_updatedAt = now\<rparr>"

definition canUpdate :: "workflow_row \<Rightarrow> string \<Rightarrow> string maybe \<Rightarrow> string maybe \<Rightarrow> bool" where
  "canUpdate dbWorkflow userId workspaceId userRole =
     (row_userId dbWorkflow = userId \<or>
      (truthyString workspaceId \<and>
       (userRole = Def ''owner'' \<or> userRole = Def ''admin'' \<or> userRole = Def ''member'')))"

text \<open>
  The comparison of the row with the client workflow. Each test that finds a
  difference assigns a property of \<open>updateData\<close> and sets \<open>needsUpdate\<close>.
\<close>

definition assignWhen ::
  "bool \<Rightarrow> (update_data \<Rightarrow> update_data) \<Rightarrow> bool \<times> update_data \<Rightarrow> bool \<times> update_data" where
  "assignWhen differs assign d = (if differs then (True, assign (snd d)) else d)"

definition diffWorkflow ::
  "externals \<Rightarrow> workflow_row \<Rightarrow> client_workflow \<Rightarrow> string maybe \<Rightarrow> state_value
     \<Rightarrow> bool \<times> update_data" where
  "diffWorkflow ext dbWorkflow cw effective toSave =
     (let clientIsDeployed = truthyBool (ws_isDeployed (cw_state cw));
          clientDeployedAt = objectOrNull (ws_deployedAt (cw_state cw));
          d0 = (False, emptyUpdateData);
          d1 = assignWhen (row_name dbWorkflow \<noteq> cw_name cw)
                 (\<lambda>u. u\<lparr>ud_name := Some (cw_name cw)\<rparr>) d0;
          d2 = assignWhen (row_description dbWorkflow \<noteq> cw_description cw)
                 (\<lambda>u. u\<lparr>ud_description := Some (cw_description cw)\<rparr>) d1;
          d3 = assignWhen (row_color dbWorkflow \<noteq> cw_color cw)
                 (\<lambda>u. u\<lparr>ud_color := Some (cw_color cw)\<rparr>) d2;
          d4 = assignWhen (row_workspaceId dbWorkflow \<noteq> effective)
                 (\<lambda>u. u\<lparr>ud_workspaceId := Some effective\<rparr>) d3;
          d5 = assignWhen (row_folderId dbWorkflow \<noteq> stringOrNull (cw_folderId cw))
                 (\<lambda>u. u\<lparr>ud_folderId := Some (stringOrNull (cw_folderId cw))\<rparr>) d4;
          d6 = assignWhen
                 (stringifyMaybe (stringifyMarketplace ext) (row_marketplaceData dbWorkflow) \<noteq>
                  stringifyMaybe (stringifyMarketplace ext) (cw_marketplaceData cw))
                 (\<lambda>u. u\<lparr>ud_marketplaceData := Some (objectOrNull (cw_marketplaceData cw))\<rparr>) d5;
          d7 = assignWhen (stringifyState ext (row_state dbWorkflow) \<noteq> stringifyState ext toSave)
                 (\<lambda>u. u\<lparr>ud_state := Some toSave\<rparr>) d6;
          d8 = assignWhen (row_isDeployed dbWorkflow \<noteq> clientIsDeployed)
                 (\<lambda>u. u\<lparr>ud_isDeployed := Some clientIsDeployed\<rparr>) d7;
          d9 = assignWhen
                 (strictNeqNumber (timeOrNull (row_deployedAt dbWorkflow)) (timeOrNull clientDeployedAt))
                 (\<lambda>u. u\<lparr>ud_deployedAt := Some clientDeployedAt\<rparr>) d8
      in d9)"

text \<open>
  \<open>dbWorkflowMap.get(id)\<close>: the map is built from the selected rows, a later row with
  the same id replacing an earlier one.
\<close>

definition dbWorkflowMapGet :: "workflow_row list \<Rightarrow> string \<Rightarrow> workflow_row option" where
  "dbWorkflowMapGet dbWorkflows i = map_of (rev (map (\<lambda>w. (row_id w, w)) dbWorkflows)) i"

text \<open>
  One turn of the loop over \<open>Object.entries(clientWorkflows)\<close>: the call of the normalized
  save it makes, and the operation it pushes, if any.
\<close>

record processed =
  saveCall :: "string \<times> normalized_state"
  pushed :: "operation option"

definition processClientWorkflow ::
  "externals \<Rightarrow> string \<Rightarrow> string maybe \<Rightarrow> string maybe \<Rightarrow> date \<Rightarrow> workflow_row list
     \<Rightarrow> string \<times> client_workflow \<Rightarrow> processed" where
  "processClientWorkflow ext userId workspaceId userRole now dbWorkflows entry =
     (let i = fst entry;
          cw = migrateLegacyPublished (snd entry);
          effective = effectiveWorkspaceId cw workspaceId;
          normalizedResult = saveWorkflowToNormalizedTables ext i (normalizedArgs cw);
          toSave = stateToSave normalizedResult cw
      in \<lparr>saveCall = (i, normalizedArgs cw),
          pushed =
            (case dbWorkflowMapGet dbWorkflows i of
               None \<Rightarrow> Some (Insert (insertValues userId now effective toSave cw))
             | Some dbWorkflow \<Rightarrow>
                 if \<not> canUpdate dbWorkflow userId workspaceId userRole then None
                 else
                   (let d = diffWorkflow ext dbWorkflow cw effective toSave in
                    if fst d
                    then Some (Update ((snd d)\<lparr>ud_lastSynced := Some now, ud_updatedAt := Some now\<rparr>) i)
                    else None))\<rparr>)"

section \<open>The sync route: requests and responses\<close>

text \<open>The bodies of the route's \<open>NextResponse.json\<close> calls.\<close>

datatype response_body =
    ErrorBody string
  | ErrorCodeBody string string
  | ErrorMessageBody string string
  | ErrorDetailsBody string "zod_issue list"
  | DataBody "workflow_row list"
  | SuccessBody int nat nat

record response =
  res_status :: nat
  res_body :: response_body

text \<open>
  What a request does besides answering, in order: the selects it awaits, the calls of the
  normalized save, the operations it hands to \<open>Promise.all\<close>, and (GET) the start of the
  background migration of orphaned workflows.
\<close>

datatype event =
    Selected db_query
  | SavedNormalized string normalized_state
  | Issued operation
  | MigrationStarted string string

record route_result =
  rr_response :: response
  rr_cache :: membership_cache
  rr_events :: "event list"

definition respond :: "nat \<Rightarrow> response_body \<Rightarrow> membership_cache \<Rightarrow> event list \<Rightarrow> route_result" where
  "respond st b cache events =
     \<lparr>rr_response = \<lparr>res_status = st, res_body = b\<rparr>, rr_cache = cache, rr_events = events\<rparr>"

text \<open>The operations a request issued.\<close>

fun issuedOperations :: "event list \<Rightarrow> operation list" where
  "issuedOperations [] = []"
| "issuedOperations (Issued op # es) = op # issuedOperations es"
| "issuedOperations (_ # es) = issuedOperations es"

text \<open>
  The session is \<open>session?.user?.id\<close>; the body is the result of \<open>req.json()\<close>, \<open>None\<close>
  when that throws. The clock: \<open>startTime\<close>, the readings of the membership check, the
  \<open>new Date()\<close> of the sync, and the reading for \<open>elapsed\<close>.
\<close>

record sync_request =
  rq_session :: "string maybe"
  rq_body :: "json option"

record get_request =
  gq_session :: "string maybe"
  gq_workspaceId :: "string maybe"

record sync_clock =
  startTime :: int
  memberClock :: membership_clock
  syncNow :: int
  endTime :: int

fun stringOf :: "string maybe \<Rightarrow> string" where
  "stringOf (Def s) = s"
| "stringOf _ = []"

text \<open>The rows a select finds: of the workspace when one is given, of the user otherwise.\<close>

definition selectWorkflows :: "database \<Rightarrow> string \<Rightarrow> string maybe \<Rightarrow> workflow_row list" where
  "selectWorkflows db userId workspaceId =
     (if truthyString workspaceId
      then filter (\<lambda>w. row_workspaceId w = workspaceId) (workflowTable db)
      else filter (\<lambda>w. row_userId w = userId) (workflowTable db))"

definition existingWorkflows :: "database \<Rightarrow> string \<Rightarrow> string maybe \<Rightarrow> string list" where
  "existingWorkflows db userId workspaceId = take 1 (map row_id (selectWorkflows db userId workspaceId))"

section \<open>The sync route: POST\<close>

definition syncFailed :: "membership_cache \<Rightarrow> event list \<Rightarrow> route_result" where
  "syncFailed cache events = respond 500 (ErrorBody ''Workflow sync failed'') cache events"

text \<open>The loop over the client workflows and \<open>Promise.all(operations)\<close>.\<close>

definition processClientWorkflows ::
  "externals \<Rightarrow> database \<Rightarrow> sync_clock \<Rightarrow> string \<Rightarrow> sync_payload \<Rightarrow> string maybe \<Rightarrow> processed list" where
  "processClientWorkflows ext db clock userId payload userRole =
     map (processClientWorkflow ext userId (sp_workspaceId payload) userRole (Date (syncNow clock))
            (selectWorkflows db userId (sp_workspaceId payload)))
         (sp_workflows payload)"

definition pushedOperations :: "processed list \<Rightarrow> operation list" where
  "pushedOperations results = concat (map (\<lambda>r. case pushed r of None \<Rightarrow> [] | Some op \<Rightarrow> [op]) results)"

definition syncWorkflows ::
  "externals \<Rightarrow> database \<Rightarrow> sync_clock \<Rightarrow> string \<Rightarrow> sync_payload \<Rightarrow> string maybe
     \<Rightarrow> membership_cache \<Rightarrow> event list \<Rightarrow> route_result" where
  "syncWorkflows ext db clock userId payload userRole cache events =
     (case rejecting db SelectWorkflow of
        Some msg \<Rightarrow> syncFailed cache (events @ [Selected SelectWorkflow])
      | None \<Rightarrow>
          (let results = processClientWorkflows ext db clock userId payload userRole;
               operations = pushedOperations results;
               events' = events @ [Selected SelectWorkflow]
                         @ map (\<lambda>r. SavedNormalized (fst (saveCall r)) (snd (saveCall r))) results
                         @ map Issued operations
           in if operations \<noteq> [] \<and> rejecting db WriteWorkflow \<noteq> None
              then syncFailed cache events'
              else respond 200
                     (SuccessBody (endTime clock - startTime clock) (length operations)
                        (length (sp_workflows payload)))
                     cache events'))"

text \<open>The validation of the workspace and of the membership.\<close>

definition authorizeSync ::
  "externals \<Rightarrow> database \<Rightarrow> sync_clock \<Rightarrow> string \<Rightarrow> sync_payload
     \<Rightarrow> membership_cache \<Rightarrow> event list \<Rightarrow> route_result" where
  "authorizeSync ext db clock userId payload cache events =
     (if truthyString (sp_workspaceId payload) then
        (case rejecting db SelectWorkspace of
           Some msg \<Rightarrow> syncFailed cache (events @ [Selected SelectWorkspace])
         | None \<Rightarrow>
             if stringOf (sp_workspaceId payload) \<notin> set (workspaceTable db) then
               respond 404 (ErrorCodeBody ''Workspace not found'' ''WORKSPACE_NOT_FOUND'')
                 cache (events @ [Selected SelectWorkspace])
             else
               (let vr = verifyWorkspaceMembership (rejecting db) (workspaceMemberTable db)
                           (memberClock clock) cache userId (stringOf (sp_workspaceId payload));
                    events' = events @ [Selected SelectWorkspace]
                              @ (if vr_queried vr then [Selected SelectWorkspaceMember] else [])
                in if \<not> truthyString (vr_role vr) then
                     respond 403
                       (ErrorCodeBody ''Access denied to this workspace'' ''WORKSPACE_ACCESS_DENIED'')
                       (vr_cache vr) events'
                   else syncWorkflows ext db clock userId payload (vr_role vr) (vr_cache vr) events'))
      else syncWorkflows ext db clock userId payload Null cache events)"

text \<open>The safeguard against an empty payload, which comes first.\<close>

definition guardedSync ::
  "externals \<Rightarrow> database \<Rightarrow> sync_clock \<Rightarrow> string \<Rightarrow> sync_payload
     \<Rightarrow> membership_cache \<Rightarrow> route_result" where
  "guardedSync ext db clock userId payload cache =
     (if sp_workflows payload = [] then
        (case rejecting db SelectExisting of
           Some msg \<Rightarrow> syncFailed cache [Selected SelectExisting]
         | None \<Rightarrow>
             if length (existingWorkflows db userId (sp_workspaceId payload)) > 0 then
               respond 409
                 (ErrorMessageBody ''Sync rejected to prevent data loss''
                    ''Client sent empty workflows, but user has existing workflows in database'')
                 cache [Selected SelectExisting]
             else authorizeSync ext db clock userId payload cache [Selected SelectExisting])
      else authorizeSync ext db clock userId payload cache [])"

definition POST ::
  "externals \<Rightarrow> database \<Rightarrow> sync_clock \<Rightarrow> membership_cache \<Rightarrow> sync_request \<Rightarrow> route_result" where
  "POST ext db clock cache req =
     (if \<not> truthyString (rq_session req) then respond 401 (ErrorBody ''Unauthorized'') cache []
      else
        (case rq_body req of
           None \<Rightarrow> syncFailed cache []
         | Some body \<Rightarrow>
             (case parseSyncPayload (newDate ext) body of
                Inl issues \<Rightarrow> respond 400 (ErrorDetailsBody ''Invalid request data'' issues) cache []
              | Inr payload \<Rightarrow>
                  guardedSync ext db clock (stringOf (rq_session req)) payload cache)))"

section \<open>The sync route: GET\<close>

text \<open>
  The rows of the answer are the rows the select finds in the table as it stands; the
  migration of orphaned workflows is started before and not awaited.
\<close>

definition fetchWorkflows ::
  "database \<Rightarrow> string \<Rightarrow> string maybe \<Rightarrow> membership_cache \<Rightarrow> event list \<Rightarrow> route_result" where
  "fetchWorkflows db userId workspaceId cache events =
     (case rejecting db SelectWorkflow of
        Some msg \<Rightarrow> respond 500 (ErrorBody msg) cache (events @ [Selected SelectWorkflow])
      | None \<Rightarrow>
          respond 200 (DataBody (selectWorkflows db userId workspaceId)) cache
            (events @ [Selected SelectWorkflow]))"

definition GET :: "database \<Rightarrow> membership_clock \<Rightarrow> membership_cache \<Rightarrow> get_request \<Rightarrow> route_result" where
  "GET db clock cache req =
     (if \<not> truthyString (gq_session req) then respond 401 (ErrorBody ''Unauthorized'') cache []
      else if truthyString (gq_workspaceId req) then
        (case rejecting db SelectWorkspace of
           Some msg \<Rightarrow> respond 500 (ErrorBody msg) cache [Selected SelectWorkspace]
         | None \<Rightarrow>
             if stringOf (gq_workspaceId req) \<notin> set (workspaceTable db) then
               respond 404 (ErrorCodeBody ''Workspace not found'' ''WORKSPACE_NOT_FOUND'')
                 cache [Selected SelectWorkspace]
             else
               (let vr = verifyWorkspaceMembership (rejecting db) (workspaceMemberTable db)
                           clock cache (stringOf (gq_session req)) (stringOf (gq_workspaceId req));
                    events = Selected SelectWorkspace
                             # (if vr_queried vr then [Selected SelectWorkspaceMember] else [])
                in if \<not> truthyString (vr_role vr) then
                     respond 403
                       (ErrorCodeBody ''Access denied to this workspace'' ''WORKSPACE_ACCESS_DENIED'')
                       (vr_cache vr) events
                   else
                     fetchWorkflows db (stringOf (gq_session req)) (gq_workspaceId req) (vr_cache vr)
                       (events @ [MigrationStarted (stringOf (gq_session req))
                                    (stringOf (gq_workspaceId req))])))
      else fetchWorkflows db (stringOf (gq_session req)) (gq_workspaceId req) cache [])"

section \<open>The sync route: what a request leaves behind\<close>

text \<open>
  The role the route holds when it reaches the loop, and what the validation of the
  workspace needs to pass and leaves behind when it does.
\<close>

definition syncUserRole :: "database \<Rightarrow> sync_clock \<Rightarrow> membership_cache \<Rightarrow> string \<Rightarrow> sync_payload \<Rightarrow> string maybe" where
  "syncUserRole db clock cache userId payload =
     (if truthyString (sp_workspaceId payload)
      then vr_role (verifyWorkspaceMembership (rejecting db) (workspaceMemberTable db)
                      (memberClock clock) cache userId (stringOf (sp_workspaceId payload)))
      else Null)"

definition authorizationPasses :: "database \<Rightarrow> sync_clock \<Rightarrow> membership_cache \<Rightarrow> string \<Rightarrow> sync_payload \<Rightarrow> bool" where
  "authorizationPasses db clock cache userId payload =
     (\<not> truthyString (sp_workspaceId payload) \<or>
      rejecting db SelectWorkspace = None \<and>
      stringOf (sp_workspaceId payload) \<in> set (workspaceTable db) \<and>
      truthyString (syncUserRole db clock cache userId payload))"

definition authorizedCache :: "database \<Rightarrow> sync_clock \<Rightarrow> membership_cache \<Rightarrow> string \<Rightarrow> sync_payload \<Rightarrow> membership_cache" where
  "authorizedCache db clock cache userId payload =
     (if truthyString (sp_workspaceId payload)
      then vr_cache (verifyWorkspaceMembership (rejecting db) (workspaceMemberTable db)
                      (memberClock clock) cache userId (stringOf (sp_workspaceId payload)))
      else cache)"

definition authorizationEvents :: "database \<Rightarrow> sync_clock \<Rightarrow> membership_cache \<Rightarrow> string \<Rightarrow> sync_payload \<Rightarrow> event list" where
  "authorizationEvents db clock cache userId payload =
     (if truthyString (sp_workspaceId payload)
      then [Selected SelectWorkspace]
           @ (if vr_queried (verifyWorkspaceMembership (rejecting db) (workspaceMemberTable db)
                      (memberClock clock) cache userId (stringOf (sp_workspaceId payload)))
              then [Selected SelectWorkspaceMember] else [])
      else [])"

definition savedEvents :: "processed list \<Rightarrow> event list" where
  "savedEvents results = map (\<lambda>r. SavedNormalized (fst (saveCall r)) (snd (saveCall r))) results"

text \<open>The state chosen for saving in the turn of the workflow with key \<open>i\<close>.\<close>

definition chosenState :: "externals \<Rightarrow> string \<Rightarrow> client_workflow \<Rightarrow> state_value" where
  "chosenState ext i cw =
     stateToSave (saveWorkflowToNormalizedTables ext i (normalizedArgs (migrateLegacyPublished cw)))
       (migrateLegacyPublished cw)"

text \<open>
  An operation leaves \<open>deployedState\<close> alone: an insert stores null, an update does not
  assign the property. The value an operation writes to the \<open>state\<close> column, if any.
\<close>

fun respectsDeployedState :: "operation \<Rightarrow> bool" where
  "respectsDeployedState (Insert v) = (row_deployedState v = Null)"
| "respectsDeployedState (Update u i) = (ud_deployedState u = None)"

fun writtenState :: "operation \<Rightarrow> state_value option" where
  "writtenState (Insert v) = Some (row_state v)"
| "writtenState (Update u i) = ud_state u"

text \<open>
  The dual write, in the words of the specification: \<open>s\<close> is the blob that the
  normalized save returned when that save succeeded (with a blob), and the state the
  client provided otherwise.
\<close>

definition dualWriteState :: "externals \<Rightarrow> string \<Rightarrow> client_workflow \<Rightarrow> state_value \<Rightarrow> bool" where
  "dualWriteState ext i cw s =
     (let r = saveWorkflowToNormalizedTables ext i (normalizedArgs (migrateLegacyPublished cw)) in
      if sr_success r \<and> truthyJson (sr_jsonBlob r)
      then (case sr_jsonBlob r of Def blob \<Rightarrow> s = JsonBlob blob | _ \<Rightarrow> False)
      else s = ClientState (cw_state cw))"

text \<open>
  The comparison of a row with a client workflow, in the words of the specification:
  some compared field differs. Absent (falsy) values count as null for \<open>folderId\<close> and
  \<open>deployedAt\<close>, an absent \<open>isDeployed\<close> of the client as false; \<open>marketplaceData\<close> and
  \<open>state\<close> are compared by their serialization, \<open>deployedAt\<close> by its time value.
\<close>

definition comparedFieldsDiffer ::
  "externals \<Rightarrow> workflow_row \<Rightarrow> client_workflow \<Rightarrow> string maybe \<Rightarrow> state_value \<Rightarrow> bool" where
  "comparedFieldsDiffer ext dbWorkflow cw effective toSave =
     (row_name dbWorkflow \<noteq> cw_name cw \<or>
      row_description dbWorkflow \<noteq> cw_description cw \<or>
      row_color dbWorkflow \<noteq> cw_color cw \<or>
      row_workspaceId dbWorkflow \<noteq> effective \<or>
      row_folderId dbWorkflow \<noteq> (if truthyString (cw_folderId cw) then cw_folderId cw else Null) \<or>
      stringifyMaybe (stringifyMarketplace ext) (row_marketplaceData dbWorkflow) \<noteq>
        stringifyMaybe (stringifyMarketplace ext) (cw_marketplaceData cw) \<or>
      stringifyState ext (row_state dbWorkflow) \<noteq> stringifyState ext toSave \<or>
      row_isDeployed dbWorkflow \<noteq> (case ws_isDeployed (cw_state cw) of Def b \<Rightarrow> b | _ \<Rightarrow> False) \<or>
      strictNeqNumber (timeOrNull (row_deployedAt dbWorkflow))
        (timeOrNull (ws_deployedAt (cw_state cw))))"

section \<open>The client: registry, workflow store, subblock store\<close>

record deployment_status =
  ds_isDeployed :: bool
  ds_deployedAt :: "date maybe"
  ds_apiKey :: "string maybe"
  ds_needsRedeployment :: "bool maybe"

record history_snapshot =
  hs_blocks :: "(string \<times> json) list"
  hs_edges :: "json list"
  hs_loops :: "(string \<times> json) list"
  hs_parallels :: "(string \<times> json) list"
  hs_isDeployed :: bool
  hs_deployedAt :: "date maybe"

record history_entry =
  he_state :: history_snapshot
  he_timestamp :: int
  he_action :: string
  he_subblockValues :: "(string \<times> json) list"

record history =
  past :: "history_entry list"
  present :: history_entry
  future :: "history_entry list"

text \<open>The properties of the workflow store that the registry reads and sets.\<close>

record workflow_store =
  wf_blocks :: "(string \<times> json) list"
  wf_edges :: "json list"
  wf_loops :: "(string \<times> json) list"
  wf_parallels :: "(string \<times> json) list"
  wf_isDeployed :: bool
  wf_deployedAt :: "date maybe"
  wf_needsRedeployment :: "bool maybe"
  wf_deploymentStatuses :: "string \<rightharpoonup> deployment_status"
  wf_hasActiveSchedule :: bool
  wf_history :: history
  wf_lastSaved :: int

record subblock_store =
  workflowValues :: "(string \<times> json) list"
  toolParams :: "(string \<times> json) list"

record workflow_metadata =
  wm_name :: string
  wm_description :: "string maybe"
  wm_color :: string
  wm_marketplaceData :: "marketplace_data maybe"
  wm_workspaceId :: "string maybe"
  wm_folderId :: "string maybe"

record registry =
  reg_workflows :: "(string \<times> workflow_metadata) list"
  reg_activeWorkflowId :: "string maybe"
  reg_activeWorkspaceId :: "string maybe"
  reg_isLoading :: bool
  reg_error :: "string maybe"
  reg_deploymentStatuses :: "string \<rightharpoonup> deployment_status"

text \<open>The state of a workflow as the persistence helpers keep it in browser storage.\<close>

record persisted_state =
  ps_blocks :: "(string \<times> json) list"
  ps_edges :: "json list"
  ps_loops :: "(string \<times> json) list"
  ps_parallels :: "(string \<times> json) list"
  ps_isDeployed :: "bool maybe"
  ps_deployedAt :: "date maybe"
  ps_deploymentStatuses :: "(string \<rightharpoonup> deployment_status) maybe"
  ps_needsRedeployment :: "bool maybe"
  ps_lastSaved :: "int maybe"

text \<open>The calls into other modules, kept in the order they are made.\<close>

datatype client_call =
    ClearWorkflowVariablesTracking
  | ResetRegistryInitialization
  | FetchWorkflowsFromDB
  | WorkflowSyncSync
  | SetTimeout nat

record client_state =
  registry :: registry
  workflowStore :: workflow_store
  subBlockStore :: subblock_store
  isWorkspaceTransitioning :: bool
  inBrowser :: bool
  localStorage :: "string \<rightharpoonup> string"
  workflowStorage :: "string \<rightharpoonup> persisted_state"
  calls :: "client_call list"



section \<open>The registry: setDeploymentStatus\<close>











section \<open>The registry: setActiveWorkspace\<close>

definition ACTIVE_WORKSPACE_KEY :: string where
  "ACTIVE_WORKSPACE_KEY = ''active-workspace-id''"

definition TRANSITION_TIMEOUT :: nat where
  "TRANSITION_TIMEOUT = 5000"

definition setWorkspaceTransitioning :: "bool \<Rightarrow> client_state \<Rightarrow> client_state" where
  "setWorkspaceTransitioning isTransitioning s =
     s\<lparr>isWorkspaceTransitioning := isTransitioning,
       calls := calls s @ (if isTransitioning then [SetTimeout TRANSITION_TIMEOUT] else [])\<rparr>"

record reset_clock =
  timestampNow :: int
  lastSavedNow :: int

definition initialHistory :: "int \<Rightarrow> history" where
  "initialHistory now =
     \<lparr>past = [],
      present =
        \<lparr>he_state = \<lparr>hs_blocks = [], hs_edges = [], hs_loops = [], hs_parallels = [],
                      hs_isDeployed = False, hs_deployedAt = Undefined\<rparr>,
         he_timestamp = now,
         he_action = ''Initial state'',
         he_subblockValues = []\<rparr>,
      future = []\<rparr>"

text \<open>
  \<open>setState\<close> merges: the properties that are not named (\<open>parallels\<close> and
  \<open>needsRedeployment\<close> of the workflow store among them) keep their values.
\<close>

definition resetWorkflowStores :: "reset_clock \<Rightarrow> client_state \<Rightarrow> client_state" where
  "resetWorkflowStores clock s =
     s\<lparr>calls := calls s @ [ClearWorkflowVariablesTracking],
       workflowStore := (workflowStore s)
         \<lparr>wf_blocks := [],
          wf_edges := [],
          wf_loops := [],
          wf_isDeployed := False,
          wf_deployedAt := Undefined,
          wf_deploymentStatuses := Map.empty,
          wf_hasActiveSchedule := False,
          wf_history := initialHistory (timestampNow clock),
          wf_lastSaved := lastSavedNow clock\<rparr>,
       subBlockStore := (subBlockStore s)\<lparr>workflowValues := [], toolParams := []\<rparr>\<rparr>"

text \<open>
  The synchronous part of \<open>setActiveWorkspace\<close>, up to and with the call of
  \<open>fetchWorkflowsFromDB\<close>: the state it returns is the state in which the fetch starts.
\<close>

definition setActiveWorkspace :: "reset_clock \<Rightarrow> string \<Rightarrow> client_state \<Rightarrow> client_state" where
  "setActiveWorkspace clock workspaceId s =
     (if Def workspaceId = reg_activeWorkspaceId (registry s) then s
      else if isWorkspaceTransitioning s then s
      else
        (let s1 = setWorkspaceTransitioning True s;
             s2 = resetWorkflowStores clock s1;
             s3 = s2\<lparr>calls := calls s2 @ [ResetRegistryInitialization]\<rparr>;
             s4 = (if inBrowser s3
                   then s3\<lparr>localStorage := (localStorage s3)(ACTIVE_WORKSPACE_KEY \<mapsto> workspaceId)\<rparr>
                   else s3);
             s5 = s4\<lparr>registry := (registry s4)
                       \<lparr>reg_isLoading := True,
                        reg_workflows := [],
                        reg_activeWorkspaceId := Def workspaceId,
                        reg_activeWorkflowId := Null\<rparr>\<rparr>
         in s5\<lparr>calls := calls s5 @ [FetchWorkflowsFromDB]\<rparr>))"

section \<open>Concrete inputs\<close>

definition noRejection :: "db_query \<Rightarrow> string option" where
  "noRejection q = None"

text \<open>
  A busy minute: the users \<open>u\<close>, \<open>ux\<close>, \<open>uxx\<close>, ... are members of the workspace \<open>w\<close>,
  and user number \<open>i\<close> is verified at time \<open>i\<close>, one call after the other, starting from
  the empty cache. After 1001 calls the cache holds 1001 entries, none expired.
\<close>

definition userNo :: "nat \<Rightarrow> string" where
  "userNo i = ''u'' @ replicate i CHR ''x''"

definition memberNo :: "nat \<Rightarrow> member_row" where
  "memberNo i = \<lparr>m_workspaceId = ''w'', m_userId = userNo i, m_role = ''member''\<rparr>"

definition manyMembers :: "member_row list" where
  "manyMembers = map memberNo [0..<1001]"

definition entryNo :: "nat \<Rightarrow> string \<times> cache_entry" where
  "entryNo i = (cacheKey (userNo i) ''w'', \<lparr>role = ''member'', expires = int i + 60000\<rparr>)"

definition fullCache :: membership_cache where
  "fullCache = map entryNo [0..<1001]"

fun verifyRun ::
  "member_row list \<Rightarrow> (string \<times> int) list \<Rightarrow> membership_cache \<Rightarrow> membership_cache" where
  "verifyRun members [] c = c"
| "verifyRun members ((u, t) # rest) c =
     verifyRun members rest
       (vr_cache (verifyWorkspaceMembership noRejection members
          \<lparr>cleanupNow = t, checkNow = t, storeNow = t\<rparr> c u ''w''))"

text \<open>
  A sample environment. \<open>sampleStringifyState\<close> stands in for \<open>JSON.stringify\<close> on the
  sample states (it lists the names of the blocks); the sample save succeeds and
  returns a blob.
\<close>

definition sampleNewDate :: "string \<Rightarrow> date" where
  "sampleNewDate s = (if s = ''2024-01-01T00:00:00.000Z'' then Date 1704067200000 else InvalidDate)"

definition blockNames :: "(string \<times> json) list \<Rightarrow> string" where
  "blockNames bs = concat (map (\<lambda>(k, v). k @ '','') bs)"

definition sampleStringifyState :: "state_value \<Rightarrow> string" where
  "sampleStringifyState v =
     (case v of
        JsonBlob (JObj kvs) \<Rightarrow>
          (case map_of kvs ''blocks'' of Some (JObj bs) \<Rightarrow> blockNames bs | _ \<Rightarrow> [])
      | JsonBlob _ \<Rightarrow> []
      | ClientState st \<Rightarrow> blockNames (ws_blocks st))"

definition sampleSave :: "string \<Rightarrow> normalized_state \<Rightarrow> save_result" where
  "sampleSave i a =
     \<lparr>sr_success = True,
      sr_jsonBlob = Def (JObj [(''blocks'', JObj (ns_blocks a)), (''edges'', JArr (ns_edges a)),
                              (''loops'', JObj (ns_loops a)), (''parallels'', JObj (ns_parallels a))]),
      sr_error = Undefined\<rparr>"

definition sampleExternals :: externals where
  "sampleExternals =
     \<lparr>newDate = sampleNewDate, stringifyState = sampleStringifyState,
      stringifyMarketplace = md_id, saveWorkflowToNormalizedTables = sampleSave\<rparr>"

text \<open>
  A sample database: workspace \<open>w\<close> with one workflow \<open>a\<close> of its owner \<open>o\<close>, a member
  \<open>m\<close> and a viewer \<open>v\<close>; the user \<open>u\<close> is no member.
\<close>

definition sampleRow :: workflow_row where
  "sampleRow =
     \<lparr>row_id = ''a'', row_userId = ''o'', row_workspaceId = Def ''w'', row_folderId = Null,
      row_name = ''A'', row_description = Def ''first'', row_color = Def ''#3972F6'',
      row_state = JsonBlob (JObj [(''blocks'', JObj [(''b1'', JObj [])]), (''edges'', JArr []),
                                  (''loops'', JObj []), (''parallels'', JObj [])]),
      row_marketplaceData = Null, row_isDeployed = False, row_deployedAt = Null,
      row_deployedState = Def (JObj [(''blocks'', JObj [])]),
      row_lastSynced = Date 1, row_createdAt = Date 1, row_updatedAt = Date 1\<rparr>"

definition sampleDb :: database where
  "sampleDb =
     \<lparr>workflowTable = [sampleRow], workspaceTable = [''w''],
      workspaceMemberTable =
        [\<lparr>m_workspaceId = ''w'', m_userId = ''o'', m_role = ''owner''\<rparr>,
         \<lparr>m_workspaceId = ''w'', m_userId = ''m'', m_role = ''member''\<rparr>,
         \<lparr>m_workspaceId = ''w'', m_userId = ''v'', m_role = ''viewer''\<rparr>],
      rejecting = noRejection\<rparr>"

definition sampleClock :: sync_clock where
  "sampleClock =
     \<lparr>startTime = 1000, memberClock = \<lparr>cleanupNow = 1001, checkNow = 1002, storeNow = 1003\<rparr>,
      syncNow = 1004, endTime = 1010\<rparr>"

text \<open>Sample bodies: an empty payload, a workflow without name and edges, two workflows.\<close>

definition emptySyncBody :: json where
  "emptySyncBody = JObj [(''workflows'', JObj []), (''workspaceId'', JStr ''w'')]"

definition incompleteSyncBody :: json where
  "incompleteSyncBody =
     JObj [(''workflows'',
            JObj [(''a'', JObj [(''id'', JStr ''a''),
                               (''state'', JObj [(''blocks'', JObj []), (''edges'', JNull)])])])]"

definition workflowJson :: "string \<Rightarrow> string \<Rightarrow> string \<Rightarrow> json" where
  "workflowJson i name block =
     JObj [(''id'', JStr i), (''name'', JStr name), (''description'', JStr ''first''),
           (''color'', JStr ''#3972F6''),
           (''state'', JObj [(''blocks'', JObj [(block, JObj [])]), (''edges'', JArr [])]),
           (''marketplaceData'', JNull)]"

definition syncBody :: json where
  "syncBody =
     JObj [(''workflows'', JObj [(''a'', workflowJson ''a'' ''A renamed'' ''b1''),
                                (''b'', workflowJson ''b'' ''B'' ''b2'')]),
           (''workspaceId'', JStr ''w'')]"

definition sampleWorkflow :: "string \<Rightarrow> string \<Rightarrow> string \<Rightarrow> client_workflow" where
  "sampleWorkflow i name block =
     \<lparr>cw_id = i, cw_name = name, cw_description = Def ''first'', cw_color = Def ''#3972F6'',
      cw_state = \<lparr>ws_blocks = [(block, JObj [])], ws_edges = [], ws_loops = [], ws_parallels = [],
                  ws_lastSaved = Undefined, ws_isDeployed = Undefined, ws_deployedAt = Undefined,
                  ws_isPublished = Undefined, ws_marketplaceData = Undefined\<rparr>,
      cw_marketplaceData = Null, cw_workspaceId = Undefined, cw_folderId = Undefined\<rparr>"

definition samplePayload :: sync_payload where
  "samplePayload =
     \<lparr>sp_workflows = [(''a'', sampleWorkflow ''a'' ''A renamed'' ''b1''),
                      (''b'', sampleWorkflow ''b'' ''B'' ''b2'')],
      sp_workspaceId = Def ''w''\<rparr>"

text \<open>
  Sample requests: the member and the viewer send the two workflows, the member sends
  workflow \<open>a\<close> as the table has it; the operations they lead to.
\<close>

definition unchangedSyncBody :: json where
  "unchangedSyncBody =
     JObj [(''workflows'', JObj [(''a'', workflowJson ''a'' ''A'' ''b1'')]),
           (''workspaceId'', JStr ''w'')]"

definition unchangedPayload :: sync_payload where
  "unchangedPayload =
     \<lparr>sp_workflows = [(''a'', sampleWorkflow ''a'' ''A'' ''b1'')], sp_workspaceId = Def ''w''\<rparr>"

definition memberRequest :: sync_request where
  "memberRequest = \<lparr>rq_session = Def ''m'', rq_body = Some syncBody\<rparr>"

definition viewerRequest :: sync_request where
  "viewerRequest = \<lparr>rq_session = Def ''v'', rq_body = Some syncBody\<rparr>"

definition unchangedRequest :: sync_request where
  "unchangedRequest = \<lparr>rq_session = Def ''m'', rq_body = Some unchangedSyncBody\<rparr>"

definition sampleUpdate :: update_data where
  "sampleUpdate = emptyUpdateData\<lparr>ud_name := Some ''A renamed'', ud_lastSynced := Some (Date 1004),
     ud_updatedAt := Some (Date 1004)\<rparr>"

definition sampleInsert :: "string \<Rightarrow> workflow_row" where
  "sampleInsert u =
     \<lparr>row_id = ''b'', row_userId = u, row_workspaceId = Def ''w'', row_folderId = Null,
      row_name = ''B'', row_description = Def ''first'', row_color = Def ''#3972F6'',
      row_state = JsonBlob (JObj [(''blocks'', JObj [(''b2'', JObj [])]), (''edges'', JArr []),
                                  (''loops'', JObj []), (''parallels'', JObj [])]),
      row_marketplaceData = Null, row_isDeployed = False, row_deployedAt = Null,
      row_deployedState = Null,
      row_lastSynced = Date 1004, row_createdAt = Date 1004, row_updatedAt = Date 1004\<rparr>"

text \<open>
  A sample client: workflow \<open>a\<close> of workspace \<open>w\<close> is active, with a graph in the
  workflow store; browser storage holds a state for \<open>a\<close> and for \<open>z\<close>.
\<close>

definition sampleStatus :: deployment_status where
  "sampleStatus = \<lparr>ds_isDeployed = False, ds_deployedAt = Undefined, ds_apiKey = Undefined,
                    ds_needsRedeployment = Def True\<rparr>"

definition sampleStore :: workflow_store where
  "sampleStore =
     \<lparr>wf_blocks = [(''b1'', JObj [])], wf_edges = [JObj []], wf_loops = [(''l1'', JObj [])],
      wf_parallels = [(''p1'', JObj [])], wf_isDeployed = True, wf_deployedAt = Def (Date 5),
      wf_needsRedeployment = Def True, wf_deploymentStatuses = [''a'' \<mapsto> sampleStatus],
      wf_hasActiveSchedule = True, wf_history = initialHistory 1, wf_lastSaved = 2\<rparr>"

definition samplePersisted :: persisted_state where
  "samplePersisted =
     \<lparr>ps_blocks = [(''b9'', JObj [])], ps_edges = [], ps_loops = [], ps_parallels = [],
      ps_isDeployed = Def False, ps_deployedAt = Undefined, ps_deploymentStatuses = Undefined,
      ps_needsRedeployment = Undefined, ps_lastSaved = Def 3\<rparr>"

definition sampleClient :: client_state where
  "sampleClient =
     \<lparr>registry =
        \<lparr>reg_workflows =
           [(''a'', \<lparr>wm_name = ''A'', wm_description = Def ''first'', wm_color = ''#3972F6'',
                     wm_marketplaceData = Undefined, wm_workspaceId = Def ''w'', wm_folderId = Null\<rparr>)],
         reg_activeWorkflowId = Def ''a'', reg_activeWorkspaceId = Def ''w'', reg_isLoading = False,
         reg_error = Null, reg_deploymentStatuses = [''a'' \<mapsto> sampleStatus]\<rparr>,
      workflowStore = sampleStore,
      subBlockStore = \<lparr>workflowValues = [(''a'', JObj [])], toolParams = [(''t'', JObj [])]\<rparr>,
      isWorkspaceTransitioning = False, inBrowser = True,
      localStorage = [ACTIVE_WORKSPACE_KEY \<mapsto> ''w''],
      workflowStorage = [''a'' \<mapsto> samplePersisted, ''z'' \<mapsto> samplePersisted],
      calls = []\<rparr>"


text \<open>
  More requests of the member \<open>m\<close>: workflow \<open>a\<close> with another block; workflow \<open>a\<close> as
  the table has it, but published and without marketplace data; and, of the user \<open>u\<close>,
  a body whose only workflow is the property \<open>__proto__\<close>.
\<close>

definition changedSyncBody :: json where
  "changedSyncBody =
     JObj [(''workflows'', JObj [(''a'', workflowJson ''a'' ''A'' ''b9'')]),
           (''workspaceId'', JStr ''w'')]"

definition changedPayload :: sync_payload where
  "changedPayload =
     \<lparr>sp_workflows = [(''a'', sampleWorkflow ''a'' ''A'' ''b9'')], sp_workspaceId = Def ''w''\<rparr>"

definition changedRequest :: sync_request where
  "changedRequest = \<lparr>rq_session = Def ''m'', rq_body = Some changedSyncBody\<rparr>"

definition changedUpdate :: update_data where
  "changedUpdate = emptyUpdateData\<lparr>
     ud_state := Some (JsonBlob (JObj [(''blocks'', JObj [(''b9'', JObj [])]), (''edges'', JArr []),
                                       (''loops'', JObj []), (''parallels'', JObj [])])),
     ud_lastSynced := Some (Date 1004), ud_updatedAt := Some (Date 1004)\<rparr>"

definition publishedSyncBody :: json where
  "publishedSyncBody =
     JObj [(''workflows'',
            JObj [(''a'',
              JObj [(''id'', JStr ''a''), (''name'', JStr ''A''), (''description'', JStr ''first''),
                    (''color'', JStr ''#3972F6''),
                    (''state'', JObj [(''blocks'', JObj [(''b1'', JObj [])]), (''edges'', JArr []),
                                      (''isPublished'', JBool True)]),
                    (''marketplaceData'', JNull)])]),
           (''workspaceId'', JStr ''w'')]"

definition publishedWorkflow :: client_workflow where
  "publishedWorkflow =
     \<lparr>cw_id = ''a'', cw_name = ''A'', cw_description = Def ''first'', cw_color = Def ''#3972F6'',
      cw_state = \<lparr>ws_blocks = [(''b1'', JObj [])], ws_edges = [], ws_loops = [], ws_parallels = [],
                  ws_lastSaved = Undefined, ws_isDeployed = Undefined, ws_deployedAt = Undefined,
                  ws_isPublished = Def True, ws_marketplaceData = Undefined\<rparr>,
      cw_marketplaceData = Null, cw_workspaceId = Undefined, cw_folderId = Undefined\<rparr>"

definition publishedPayload :: sync_payload where
  "publishedPayload = \<lparr>sp_workflows = [(''a'', publishedWorkflow)], sp_workspaceId = Def ''w''\<rparr>"

definition publishedRequest :: sync_request where
  "publishedRequest = \<lparr>rq_session = Def ''m'', rq_body = Some publishedSyncBody\<rparr>"

definition publishedUpdate :: update_data where
  "publishedUpdate = emptyUpdateData\<lparr>
     ud_marketplaceData := Some (Def \<lparr>md_id = ''a'', md_status = StatusOwner\<rparr>),
     ud_lastSynced := Some (Date 1004), ud_updatedAt := Some (Date 1004)\<rparr>"

definition protoSyncBody :: json where
  "protoSyncBody =
     JObj [(''workflows'', JObj [(''__proto__'', workflowJson ''a'' ''A renamed'' ''b1'')]),
           (''workspaceId'', JStr ''w'')]"

definition nonMemberRequest :: sync_request where
  "nonMemberRequest = \<lparr>rq_session = Def ''u'', rq_body = Some syncBody\<rparr>"

chapter \<open>Verification\<close>

section \<open>The membership cache\<close>

lemma map_of_filter_distinct:
  "distinct (map fst c) \<Longrightarrow>
   map_of (filter P c) k =
     (case map_of c k of None \<Rightarrow> None | Some v \<Rightarrow> if P (k, v) then Some v else None)"
proof (induction c)
  case Nil
  then show ?case by simp
next
  case (Cons a c)
  obtain k' v' where a: "a = (k', v')" by (cases a)
  from Cons.prems a have notin: "k' \<notin> fst ` set c" and d: "distinct (map fst c)" by auto
  show ?case
  proof (cases "k' = k")
    case True
    with notin have "map_of c k = None" by (simp add: map_of_eq_None_iff)
    moreover from True notin have "map_of (filter P c) k = None"
      by (auto simp: map_of_eq_None_iff)
    ultimately show ?thesis using True a by simp
  next
    case False
    with a Cons.IH [OF d] show ?thesis by simp
  qed
qed

lemma removeExpired_length: "length (removeExpired now c) \<le> length c"
  by (simp add: removeExpired_def)

lemma opportunisticCleanup_small:
  "length c \<le> 1000 \<Longrightarrow>
   opportunisticCleanup now c = (if length c > 500 then removeExpired now c else c)"
  using removeExpired_length [of now c]
  by (simp add: opportunisticCleanup_def cleanupExpiredCacheEntries_def MAX_CACHE_SIZE_def Let_def)

lemma holdsFresh_removeExpired:
  "distinct (map fst c) \<Longrightarrow> now \<le> t \<Longrightarrow>
   holdsFresh (removeExpired now c) key t = holdsFresh c key t"
  by (auto simp: holdsFresh_def removeExpired_def map_of_filter_distinct split: option.splits)

lemma holdsFresh_cleanup_small:
  "distinct (map fst c) \<Longrightarrow> length c \<le> 1000 \<Longrightarrow> now \<le> t \<Longrightarrow>
   holdsFresh (opportunisticCleanup now c) key t = holdsFresh c key t"
  by (simp add: opportunisticCleanup_small holdsFresh_removeExpired)

text \<open>The cache stays a map: one entry per key.\<close>

lemma distinct_fold_delete:
  "distinct (map fst c) \<Longrightarrow>
   distinct (map fst (fold (\<lambda>(key, v) m. AList.delete key m) xs c))"
  by (induction xs arbitrary: c) (auto simp: distinct_delete)

lemma distinct_opportunisticCleanup:
  "distinct (map fst c) \<Longrightarrow> distinct (map fst (opportunisticCleanup now c))"
  by (simp add: opportunisticCleanup_def cleanupExpiredCacheEntries_def Let_def removeExpired_def
      distinct_fold_delete distinct_map_filter)

lemma verifyWorkspaceMembership_distinct:
  "distinct (map fst c) \<Longrightarrow>
   distinct (map fst (vr_cache (verifyWorkspaceMembership rj ms clock c u w)))"
  by (auto simp: verifyWorkspaceMembership_def queryMembership_def Let_def
      distinct_opportunisticCleanup distinct_update split: sum.splits option.splits)

text \<open>The run that fills the cache, and the cleanup of the full cache.\<close>

lemma verifyRun_append:
  "verifyRun members (xs @ [(u, t)]) c =
     vr_cache (verifyWorkspaceMembership noRejection members
        \<lparr>cleanupNow = t, checkNow = t, storeNow = t\<rparr> (verifyRun members xs c) u ''w'')"
  by (induction members xs c rule: verifyRun.induct) simp_all

lemma userNo_inj: "cacheKey (userNo i) w = cacheKey (userNo j) w \<longleftrightarrow> i = j"
  by (simp add: cacheKey_def userNo_def)

lemma update_new_key: "k \<notin> fst ` set c \<Longrightarrow> AList.update k v c = c @ [(k, v)]"
  by (induction c) auto

lemma entries_sorted: "sorted (map (\<lambda>(k, v). expires v) (map entryNo [m..<n]))"
  by (auto simp: sorted_map sorted_wrt_iff_nth_less entryNo_def)

lemma entries_fresh: "t < 60000 \<Longrightarrow> removeExpired t (map entryNo [m..<n]) = map entryNo [m..<n]"
  by (auto simp: removeExpired_def entryNo_def filter_id_conv)

lemma fst_entryNo: "fst (entryNo i) = cacheKey (userNo i) ''w''"
  by (simp add: entryNo_def)

lemma entries_keys: "fst ` set (map entryNo [m..<n]) = (\<lambda>i. cacheKey (userNo i) ''w'') ` {m..<n}"
  by (force simp: fst_entryNo image_iff)

lemma entries_miss: "i \<notin> {m..<n} \<Longrightarrow> map_of (map entryNo [m..<n]) (cacheKey (userNo i) ''w'') = None"
  unfolding map_of_eq_None_iff entries_keys by (auto simp: userNo_inj)

lemma member_found:
  "i < 1001 \<Longrightarrow> selectMembership noRejection manyMembers ''w'' (userNo i) = Inr (Some ''member'')"
proof -
  assume i: "i < 1001"
  let ?P = "\<lambda>m. m_workspaceId m = ''w'' \<and> m_userId m = userNo i"
  have "memberNo i \<in> set (filter ?P manyMembers)"
    using i by (simp add: manyMembers_def memberNo_def)
  then obtain m ms where f: "filter ?P manyMembers = m # ms"
    by (cases "filter ?P manyMembers") auto
  then have "m \<in> set manyMembers"
    by (metis filter_is_subset list.set_intros(1) subsetD)
  then have "m_role m = ''member''"
    by (auto simp: manyMembers_def memberNo_def)
  with f show ?thesis
    by (simp add: selectMembership_def noRejection_def)
qed

lemma verify_step:
  assumes "n \<le> 1000"
  shows "vr_cache (verifyWorkspaceMembership noRejection manyMembers
           \<lparr>cleanupNow = int n, checkNow = int n, storeNow = int n\<rparr>
           (map entryNo [0..<n]) (userNo n) ''w'') = map entryNo [0..<Suc n]"
proof -
  have c: "opportunisticCleanup (int n) (map entryNo [0..<n]) = map entryNo [0..<n]"
    using assms by (simp add: opportunisticCleanup_small entries_fresh)
  have m: "map_of (map entryNo [0..<n]) (cacheKey (userNo n) ''w'') = None"
    by (rule entries_miss) simp
  have k: "cacheKey (userNo n) ''w'' \<notin> fst ` set (map entryNo [0..<n])"
    unfolding entries_keys by (auto simp: userNo_inj)
  have s: "selectMembership noRejection manyMembers ''w'' (userNo n) = Inr (Some ''member'')"
    using assms by (intro member_found) simp
  show ?thesis
    by (simp add: verifyWorkspaceMembership_def c m queryMembership_def s update_new_key [OF k]
        CACHE_TTL_def entryNo_def)
qed

lemma verifyRun_fills:
  "n \<le> 1001 \<Longrightarrow>
   verifyRun manyMembers (map (\<lambda>i. (userNo i, int i)) [0..<n]) [] = map entryNo [0..<n]"
proof (induction n)
  case 0
  then show ?case by simp
next
  case (Suc n)
  then show ?case
    by (simp add: verifyRun_append verify_step)
qed

lemma fullCache_cleanup:
  "opportunisticCleanup 1001 fullCache = map entryNo [Suc 0..<1001]"
proof -
  have "[0..<1001] = 0 # [Suc 0..<1001]"
    by (rule upt_conv_Cons) simp
  then have u: "fullCache = entryNo 0 # map entryNo [Suc 0..<1001]"
    by (simp add: fullCache_def)
  have l: "length fullCache = 1001"
    by (simp add: fullCache_def)
  have f: "removeExpired 1001 fullCache = fullCache"
    unfolding fullCache_def by (rule entries_fresh) simp
  have s: "sort_key (\<lambda>(k, v). expires v) fullCache = fullCache"
    unfolding fullCache_def by (rule sort_key_id_if_sorted) (rule entries_sorted)
  have t: "take (1001 - 1000) fullCache = [entryNo 0]"
    by (simp add: u)
  have "\<forall>e \<in> set (map entryNo [Suc 0..<1001]). fst e \<noteq> fst (entryNo 0)"
    by (auto simp: fst_entryNo userNo_inj)
  then have d: "AList.delete (fst (entryNo 0)) fullCache = map entryNo [Suc 0..<1001]"
    unfolding u by (auto simp: AList.delete_eq filter_id_conv)
  have "cleanupExpiredCacheEntries 1001 fullCache =
      fold (\<lambda>(key, v) m. AList.delete key m) [entryNo 0] fullCache"
    unfolding cleanupExpiredCacheEntries_def Let_def f l s MAX_CACHE_SIZE_def t by simp
  also have "\<dots> = AList.delete (fst (entryNo 0)) fullCache"
    by (simp add: case_prod_unfold)
  finally show ?thesis
    by (simp add: opportunisticCleanup_def l MAX_CACHE_SIZE_def d)
qed

text \<open>
  C6, as stated, fails. The run of 1001 calls leaves the full cache; it holds an entry
  for \<open>u:w\<close> whose expiry (60000) is strictly after the time of the next call (1001);
  and yet that call, for \<open>u\<close> in \<open>w\<close>, queries the database: the cleanup, with more than
  1000 entries left, has evicted the entry that expires first.
\<close>

theorem verifyWorkspaceMembership_evicted_counterexample:
  "verifyRun manyMembers (map (\<lambda>i. (userNo i, int i)) [0..<1001]) [] = fullCache \<and>
   holdsFresh fullCache (cacheKey ''u'' ''w'') 1001 \<and>
   vr_queried (verifyWorkspaceMembership noRejection manyMembers
       \<lparr>cleanupNow = 1001, checkNow = 1001, storeNow = 1001\<rparr> fullCache ''u'' ''w'')"
proof -
  have r: "verifyRun manyMembers (map (\<lambda>i. (userNo i, int i)) [0..<1001]) [] = fullCache"
    by (simp add: verifyRun_fills fullCache_def)
  have u: "[0..<1001] = 0 # [Suc 0..<1001]"
    by (rule upt_conv_Cons) simp
  have k: "cacheKey ''u'' ''w'' = cacheKey (userNo 0) ''w''"
    by (simp add: userNo_def)
  have h: "holdsFresh fullCache (cacheKey ''u'' ''w'') 1001"
    by (simp add: holdsFresh_def fullCache_def u entryNo_def k)
  have m: "map_of (map entryNo [Suc 0..<1001]) (cacheKey (userNo 0) ''w'') = None"
    by (rule entries_miss) simp
  have q: "vr_queried (verifyWorkspaceMembership noRejection manyMembers
       \<lparr>cleanupNow = 1001, checkNow = 1001, storeNow = 1001\<rparr> fullCache ''u'' ''w'')"
    by (simp add: verifyWorkspaceMembership_def fullCache_cleanup k m queryMembership_def
        Let_def split: sum.splits option.splits)
  from r h q show ?thesis by simp
qed

text \<open>
  C6, amended. Let \<open>c1\<close> be the cache after the opportunistic cleanup.
  \<open>verifyWorkspaceMembership\<close> returns the cached role without querying the database if
  and only if \<open>c1\<close> holds an entry for the key \<open>userId:workspaceId\<close> whose expiry is
  strictly in the future; the cache it leaves is \<open>c1\<close>. Otherwise it queries the
  database: on a found membership it returns the role and stores it in \<open>c1\<close> with expiry
  60000 ms after the reading of the clock, on no membership or a rejected query it
  returns \<open>null\<close> and leaves \<open>c1\<close>. The cleanup does nothing to a cache of at most 500
  entries, and for a cache of at most 1000 entries (and a clock that does not run
  backwards) \<open>c1\<close> holds such an entry exactly when the cache does.
\<close>

theorem verifyWorkspaceMembership_cache:
  "(let c1 = opportunisticCleanup (cleanupNow clock) cache;
        key = cacheKey userId workspaceId;
        r = verifyWorkspaceMembership rj members clock cache userId workspaceId
    in (\<not> vr_queried r \<longleftrightarrow> holdsFresh c1 key (checkNow clock)) \<and>
       (holdsFresh c1 key (checkNow clock) \<longrightarrow>
          (\<exists>e. map_of c1 key = Some e \<and> vr_role r = Def (role e)) \<and> vr_cache r = c1) \<and>
       (\<not> holdsFresh c1 key (checkNow clock) \<longrightarrow>
          (case selectMembership rj members workspaceId userId of
             Inr (Some found) \<Rightarrow>
               vr_role r = Def found \<and>
               vr_cache r = AList.update key \<lparr>role = found, expires = storeNow clock + 60000\<rparr> c1
           | Inr None \<Rightarrow> vr_role r = Null \<and> vr_cache r = c1
           | Inl msg \<Rightarrow> vr_role r = Null \<and> vr_cache r = c1)) \<and>
       (length cache \<le> 500 \<longrightarrow> c1 = cache) \<and>
       (distinct (map fst cache) \<and> length cache \<le> 1000 \<and> cleanupNow clock \<le> checkNow clock \<longrightarrow>
          holdsFresh c1 key (checkNow clock) = holdsFresh cache key (checkNow clock)))"
  unfolding Let_def
proof (intro conjI impI)
  show "(\<not> vr_queried (verifyWorkspaceMembership rj members clock cache userId workspaceId)) =
        holdsFresh (opportunisticCleanup (cleanupNow clock) cache) (cacheKey userId workspaceId)
          (checkNow clock)"
    by (auto simp: verifyWorkspaceMembership_def queryMembership_def Let_def holdsFresh_def
        split: option.splits sum.splits)
next
  assume "holdsFresh (opportunisticCleanup (cleanupNow clock) cache) (cacheKey userId workspaceId)
            (checkNow clock)"
  then show
    "\<exists>e. map_of (opportunisticCleanup (cleanupNow clock) cache) (cacheKey userId workspaceId) = Some e \<and>
         vr_role (verifyWorkspaceMembership rj members clock cache userId workspaceId) = Def (role e)"
    and "vr_cache (verifyWorkspaceMembership rj members clock cache userId workspaceId) =
         opportunisticCleanup (cleanupNow clock) cache"
    by (auto simp: verifyWorkspaceMembership_def Let_def holdsFresh_def split: option.splits)
next
  assume "\<not> holdsFresh (opportunisticCleanup (cleanupNow clock) cache)
              (cacheKey userId workspaceId) (checkNow clock)"
  then show
    "case selectMembership rj members workspaceId userId of
       Inl msg \<Rightarrow>
         vr_role (verifyWorkspaceMembership rj members clock cache userId workspaceId) = Null \<and>
         vr_cache (verifyWorkspaceMembership rj members clock cache userId workspaceId) =
           opportunisticCleanup (cleanupNow clock) cache
     | Inr None \<Rightarrow>
         vr_role (verifyWorkspaceMembership rj members clock cache userId workspaceId) = Null \<and>
         vr_cache (verifyWorkspaceMembership rj members clock cache userId workspaceId) =
           opportunisticCleanup (cleanupNow clock) cache
     | Inr (Some found) \<Rightarrow>
         vr_role (verifyWorkspaceMembership rj members clock cache userId workspaceId) = Def found \<and>
         vr_cache (verifyWorkspaceMembership rj members clock cache userId workspaceId) =
           AList.update (cacheKey userId workspaceId)
             \<lparr>role = found, expires = storeNow clock + 60000\<rparr>
             (opportunisticCleanup (cleanupNow clock) cache)"
    by (auto simp: verifyWorkspaceMembership_def queryMembership_def Let_def holdsFresh_def
        CACHE_TTL_def split: option.splits sum.splits)
next
  assume "length cache \<le> 500"
  then show "opportunisticCleanup (cleanupNow clock) cache = cache"
    by (simp add: opportunisticCleanup_def MAX_CACHE_SIZE_def)
next
  assume "distinct (map fst cache) \<and> length cache \<le> 1000 \<and> cleanupNow clock \<le> checkNow clock"
  then show "holdsFresh (opportunisticCleanup (cleanupNow clock) cache)
               (cacheKey userId workspaceId) (checkNow clock) =
             holdsFresh cache (cacheKey userId workspaceId) (checkNow clock)"
    by (simp add: holdsFresh_cleanup_small)
qed

theorem verifyWorkspaceMembership_cache_witness:
  "verifyWorkspaceMembership noRejection
      [\<lparr>m_workspaceId = ''w'', m_userId = ''u'', m_role = ''admin''\<rparr>]
      \<lparr>cleanupNow = 10, checkNow = 20, storeNow = 30\<rparr>
      [(''u:w'', \<lparr>role = ''member'', expires = 15\<rparr>)] ''u'' ''w''
    = \<lparr>vr_role = Def ''admin'', vr_cache = [(''u:w'', \<lparr>role = ''admin'', expires = 60030\<rparr>)],
       vr_queried = True\<rparr>
   \<and> verifyWorkspaceMembership noRejection []
      \<lparr>cleanupNow = 10, checkNow = 14, storeNow = 30\<rparr>
      [(''u:w'', \<lparr>role = ''member'', expires = 15\<rparr>)] ''u'' ''w''
    = \<lparr>vr_role = Def ''member'', vr_cache = [(''u:w'', \<lparr>role = ''member'', expires = 15\<rparr>)],
       vr_queried = False\<rparr>"
  using verifyWorkspaceMembership_cache [of "\<lparr>cleanupNow = 10, checkNow = 20, storeNow = 30\<rparr>"
      "[(''u:w'', \<lparr>role = ''member'', expires = 15\<rparr>)]" "''u''" "''w''" noRejection
      "[\<lparr>m_workspaceId = ''w'', m_userId = ''u'', m_role = ''admin''\<rparr>]"]
    verifyWorkspaceMembership_cache [of "\<lparr>cleanupNow = 10, checkNow = 14, storeNow = 30\<rparr>"
      "[(''u:w'', \<lparr>role = ''member'', expires = 15\<rparr>)]" "''u''" "''w''" noRejection "[]"]
  by (simp add: Let_def holdsFresh_def cacheKey_def selectMembership_def opportunisticCleanup_def
      MAX_CACHE_SIZE_def noRejection_def membership_result.equality)

section \<open>The sample inputs\<close>

lemmas zod_defs = parseSyncPayload_def SyncPayloadSchema_def zWorkflowRecord_def WorkflowSchema_def
  WorkflowStateSchema_def MarketplaceDataSchema_def zNullableOptional_def zOptional_def zAnd_def
  zString_def zNumber_def zBoolean_def zRecordAny_def zArrayAny_def zRecordAnyDefault_def
  zDeployedAt_def zMarketplaceObject_def zStatusEnum_def

lemmas sample_defs = sampleExternals_def sampleDb_def sampleClock_def sampleRow_def sampleSave_def
  sampleStringifyState_def blockNames_def sampleNewDate_def noRejection_def samplePayload_def
  sampleWorkflow_def

lemmas route_defs = POST_def guardedSync_def authorizeSync_def syncWorkflows_def
  processClientWorkflows_def processClientWorkflow_def pushedOperations_def respond_def
  syncFailed_def selectWorkflows_def existingWorkflows_def verifyWorkspaceMembership_def
  queryMembership_def selectMembership_def opportunisticCleanup_def cacheKey_def
  MAX_CACHE_SIZE_def CACHE_TTL_def dbWorkflowMapGet_def canUpdate_def diffWorkflow_def
  assignWhen_def insertValues_def stateToSave_def normalizedArgs_def effectiveWorkspaceId_def
  migrateLegacyPublished_def stringOr_def stringOrNull_def objectOrNull_def strictNeqNumber_def
  emptyUpdateData_def GET_def fetchWorkflows_def

lemma parse_emptySyncBody:
  "parseSyncPayload (newDate sampleExternals) emptySyncBody =
     Inr \<lparr>sp_workflows = [], sp_workspaceId = Def ''w''\<rparr>"
  by (simp add: emptySyncBody_def zod_defs sampleExternals_def)

lemma parse_incompleteSyncBody:
  "parseSyncPayload (newDate sampleExternals) incompleteSyncBody =
     Inl [(invalid_type, [''workflows'', ''a'', ''name'']),
          (invalid_type, [''workflows'', ''a'', ''state'', ''edges''])]"
  by (simp add: incompleteSyncBody_def zod_defs)

lemma parse_syncBody: "parseSyncPayload (newDate sampleExternals) syncBody = Inr samplePayload"
  by (simp add: syncBody_def workflowJson_def zod_defs samplePayload_def sampleWorkflow_def)

lemma parse_changedSyncBody:
  "parseSyncPayload (newDate sampleExternals) changedSyncBody = Inr changedPayload"
  by (simp add: changedSyncBody_def workflowJson_def zod_defs changedPayload_def sampleWorkflow_def)

lemma parse_publishedSyncBody:
  "parseSyncPayload (newDate sampleExternals) publishedSyncBody = Inr publishedPayload"
  by (simp add: publishedSyncBody_def zod_defs publishedPayload_def publishedWorkflow_def)

text \<open>
  The workflow under the key \<open>__proto__\<close> is parsed and then left out: the payload is empty.
\<close>

lemma parse_protoSyncBody:
  "parseSyncPayload (newDate sampleExternals) protoSyncBody =
     Inr \<lparr>sp_workflows = [], sp_workspaceId = Def ''w''\<rparr>"
  by (simp add: protoSyncBody_def workflowJson_def zod_defs)

section \<open>Payload validation\<close>

lemma isl_zAnd: "isl (zAnd f x) = (isl f \<or> isl x)"
  by (cases f; cases x) (simp_all add: zAnd_def)

lemma WorkflowStateSchema_incomplete:
  "map_of st ''blocks'' = None \<or> map_of st ''edges'' = None \<Longrightarrow>
   isl (WorkflowStateSchema nd p (Some (JObj st)))"
  by (auto simp: WorkflowStateSchema_def isl_zAnd zRecordAny_def zArrayAny_def)

lemma WorkflowStateSchema_undefined: "isl (WorkflowStateSchema nd p None)"
  by (simp add: WorkflowStateSchema_def)

lemma WorkflowSchema_incomplete:
  assumes "map_of kvs ''id'' = None \<or> map_of kvs ''name'' = None \<or> map_of kvs ''state'' = None \<or>
   (\<exists>st. map_of kvs ''state'' = Some (JObj st) \<and>
         (map_of st ''blocks'' = None \<or> map_of st ''edges'' = None))"
  shows "isl (WorkflowSchema nd p (Some (JObj kvs)))"
proof -
  have "isl (zString (p @ [''id'']) (map_of kvs ''id'')) \<or>
     isl (zString (p @ [''name'']) (map_of kvs ''name'')) \<or>
     isl (WorkflowStateSchema nd (p @ [''state'']) (map_of kvs ''state''))"
    using assms
  proof (elim disjE exE conjE)
    assume "map_of kvs ''id'' = None"
    then show ?thesis by (simp add: zString_def)
  next
    assume "map_of kvs ''name'' = None"
    then show ?thesis by (simp add: zString_def)
  next
    assume "map_of kvs ''state'' = None"
    then show ?thesis by (simp add: WorkflowStateSchema_undefined)
  next
    fix st assume "map_of kvs ''state'' = Some (JObj st)" "map_of st ''blocks'' = None"
    then show ?thesis by (simp add: WorkflowStateSchema_incomplete)
  next
    fix st assume "map_of kvs ''state'' = Some (JObj st)" "map_of st ''edges'' = None"
    then show ?thesis by (simp add: WorkflowStateSchema_incomplete)
  qed
  then show ?thesis
    by (auto simp: WorkflowSchema_def isl_zAnd)
qed

lemma zWorkflowEntries_rejects:
  "(k, j) \<in> set entries \<Longrightarrow> isl (WorkflowSchema nd (p @ [k]) (Some j)) \<Longrightarrow>
   isl (zWorkflowEntries nd p entries)"
  by (induction entries) (auto simp: isl_zAnd)

text \<open>
  The keys of the parsed record are the keys of the \<open>workflows\<close> object of the body, in
  their order, without \<open>__proto__\<close>; they are distinct when the properties of the object
  are.
\<close>

lemma zAnd_Inr: "zAnd f x = Inr y \<longleftrightarrow> (\<exists>g a. f = Inr g \<and> x = Inr a \<and> y = g a)"
  by (cases f; cases x) (auto simp: zAnd_def)

lemma zWorkflowEntries_keys:
  "zWorkflowEntries nd p kvs = Inr ws \<Longrightarrow>
   map fst ws = filter (\<lambda>k. k \<noteq> ''__proto__'') (map fst kvs)"
proof (induction kvs arbitrary: ws)
  case Nil
  then show ?case by simp
next
  case (Cons a kvs)
  obtain k j where a: "a = (k, j)" by (cases a)
  from Cons.prems obtain w rest where
    "WorkflowSchema nd (p @ [k]) (Some j) = Inr w" "zWorkflowEntries nd p kvs = Inr rest"
    "ws = (if k = ''__proto__'' then rest else (k, w) # rest)"
    unfolding a by (auto simp: zAnd_Inr)
  with Cons.IH [of rest] show ?case by (simp add: a)
qed

lemma parseSyncPayload_keys:
  assumes "parseSyncPayload nd body = Inr payload"
  shows "\<exists>props entries. body = JObj props \<and> map_of props ''workflows'' = Some (JObj entries) \<and>
     map fst (sp_workflows payload) = filter (\<lambda>k. k \<noteq> ''__proto__'') (map fst entries) \<and>
     (distinct (map fst entries) \<longrightarrow> distinct (map fst (sp_workflows payload)))"
  using assms
  by (auto simp: parseSyncPayload_def SyncPayloadSchema_def zWorkflowRecord_def zAnd_Inr
      dest!: zWorkflowEntries_keys split: option.splits json.splits)

text \<open>
  The bodies the claim names fail the schema: a workflow entry without \<open>id\<close>, \<open>name\<close> or
  \<open>state\<close>, or with a state without \<open>blocks\<close> or \<open>edges\<close>.
\<close>

lemma parseSyncPayload_rejects_incomplete:
  assumes "map_of props ''workflows'' = Some (JObj entries)"
    and "(k, JObj kvs) \<in> set entries"
    and "map_of kvs ''id'' = None \<or> map_of kvs ''name'' = None \<or> map_of kvs ''state'' = None \<or>
         (\<exists>st. map_of kvs ''state'' = Some (JObj st) \<and>
               (map_of st ''blocks'' = None \<or> map_of st ''edges'' = None))"
  shows "\<exists>issues. parseSyncPayload nd (JObj props) = Inl issues"
proof -
  have "isl (zWorkflowEntries nd [''workflows''] entries)"
    using assms(2) WorkflowSchema_incomplete [OF assms(3)] by (rule zWorkflowEntries_rejects)
  then have "isl (parseSyncPayload nd (JObj props))"
    using assms(1)
    by (simp add: parseSyncPayload_def SyncPayloadSchema_def isl_zAnd zWorkflowRecord_def)
  then show ?thesis by (cases "parseSyncPayload nd (JObj props)") auto
qed

text \<open>
  C7. For a POST from an authenticated user whose JSON body fails \<open>SyncPayloadSchema\<close>,
  the route responds 400 with the error \<open>Invalid request data\<close> and the issues of the
  \<open>ZodError\<close> as details; it makes no call on the database and issues no operation.
\<close>

theorem POST_invalid_payload:
  assumes "truthyString (rq_session req)"
    and "rq_body req = Some body"
    and "parseSyncPayload (newDate ext) body = Inl issues"
  shows "rr_response (POST ext db clock cache req) =
           \<lparr>res_status = 400, res_body = ErrorDetailsBody ''Invalid request data'' issues\<rparr>
         \<and> rr_events (POST ext db clock cache req) = []
         \<and> issuedOperations (rr_events (POST ext db clock cache req)) = []"
  using assms by (simp add: POST_def respond_def)

theorem POST_invalid_payload_witness:
  "rr_response (POST sampleExternals sampleDb sampleClock []
       \<lparr>rq_session = Def ''m'', rq_body = Some incompleteSyncBody\<rparr>) =
     \<lparr>res_status = 400,
      res_body = ErrorDetailsBody ''Invalid request data''
        [(invalid_type, [''workflows'', ''a'', ''name'']),
         (invalid_type, [''workflows'', ''a'', ''state'', ''edges''])]\<rparr>
   \<and> rr_events (POST sampleExternals sampleDb sampleClock []
       \<lparr>rq_session = Def ''m'', rq_body = Some incompleteSyncBody\<rparr>) = []"
proof -
  have "truthyString (rq_session \<lparr>rq_session = Def ''m'', rq_body = Some incompleteSyncBody\<rparr>)"
    by simp
  moreover have "rq_body \<lparr>rq_session = Def ''m'', rq_body = Some incompleteSyncBody\<rparr>
      = Some incompleteSyncBody"
    by simp
  ultimately show ?thesis
    using POST_invalid_payload [OF _ _ parse_incompleteSyncBody, of _ sampleDb sampleClock "[]"]
    by blast
qed

section \<open>The safeguard against an empty payload\<close>

text \<open>
  C1. A workspaceId is given when it is a non-empty string (the route tests
  \<open>if (workspaceId)\<close>). For a POST from an authenticated user whose body parses and whose
  \<open>workflows\<close> record is empty: if the select of the safeguard resolves and the table
  holds a row of the given workspace (or, none given, a row of the user), the route
  responds 409 with the error \<open>Sync rejected to prevent data loss\<close> and issues no insert
  and no update.
\<close>

theorem POST_empty_payload_rejected:
  assumes "truthyString (rq_session req)"
    and "rq_body req = Some body"
    and "parseSyncPayload (newDate ext) body = Inr payload"
    and "sp_workflows payload = []"
    and "rejecting db SelectExisting = None"
    and "if truthyString (sp_workspaceId payload)
         then \<exists>w \<in> set (workflowTable db). row_workspaceId w = sp_workspaceId payload
         else \<exists>w \<in> set (workflowTable db). row_userId w = stringOf (rq_session req)"
  shows "rr_response (POST ext db clock cache req) =
           \<lparr>res_status = 409,
            res_body = ErrorMessageBody ''Sync rejected to prevent data loss''
              ''Client sent empty workflows, but user has existing workflows in database''\<rparr>
         \<and> issuedOperations (rr_events (POST ext db clock cache req)) = []"
proof -
  from assms(6) have "selectWorkflows db (stringOf (rq_session req)) (sp_workspaceId payload) \<noteq> []"
    by (auto simp: selectWorkflows_def filter_empty_conv split: if_splits)
  then have "length (existingWorkflows db (stringOf (rq_session req)) (sp_workspaceId payload)) > 0"
    by (cases "selectWorkflows db (stringOf (rq_session req)) (sp_workspaceId payload)")
       (simp_all add: existingWorkflows_def)
  with assms(1-5) show ?thesis
    by (simp add: POST_def guardedSync_def respond_def)
qed

theorem POST_empty_payload_rejected_witness:
  "rr_response (POST sampleExternals sampleDb sampleClock []
       \<lparr>rq_session = Def ''m'', rq_body = Some emptySyncBody\<rparr>) =
     \<lparr>res_status = 409,
      res_body = ErrorMessageBody ''Sync rejected to prevent data loss''
        ''Client sent empty workflows, but user has existing workflows in database''\<rparr>
   \<and> issuedOperations (rr_events (POST sampleExternals sampleDb sampleClock []
       \<lparr>rq_session = Def ''m'', rq_body = Some emptySyncBody\<rparr>)) = []"
proof -
  have 1: "truthyString (rq_session \<lparr>rq_session = Def ''m'', rq_body = Some emptySyncBody\<rparr>)"
    by simp
  have 2: "rq_body \<lparr>rq_session = Def ''m'', rq_body = Some emptySyncBody\<rparr> = Some emptySyncBody"
    by simp
  have 4: "sp_workflows \<lparr>sp_workflows = [], sp_workspaceId = Def ''w''\<rparr> = []"
    by simp
  have 5: "rejecting sampleDb SelectExisting = None"
    by (simp add: sampleDb_def noRejection_def)
  have 6: "if truthyString (sp_workspaceId \<lparr>sp_workflows = [], sp_workspaceId = Def ''w''\<rparr>)
           then \<exists>w \<in> set (workflowTable sampleDb).
                  row_workspaceId w = sp_workspaceId \<lparr>sp_workflows = [], sp_workspaceId = Def ''w''\<rparr>
           else \<exists>w \<in> set (workflowTable sampleDb).
                  row_userId w = stringOf (rq_session \<lparr>rq_session = Def ''m'', rq_body = Some emptySyncBody\<rparr>)"
    by (simp add: sampleDb_def sampleRow_def)
  show ?thesis
    using POST_empty_payload_rejected [OF 1 2 parse_emptySyncBody 4 5 6, of sampleClock "[]"]
    by blast
qed

text \<open>
  A payload whose only workflow is the property \<open>__proto__\<close> is an empty payload to the
  route: the safeguard answers it, also to a user who is no member of the workspace.
\<close>

lemma POST_proto_payload_rejected:
  "rr_response (POST sampleExternals sampleDb sampleClock []
       \<lparr>rq_session = Def ''u'', rq_body = Some protoSyncBody\<rparr>) =
     \<lparr>res_status = 409,
      res_body = ErrorMessageBody ''Sync rejected to prevent data loss''
        ''Client sent empty workflows, but user has existing workflows in database''\<rparr>"
  by (simp add: POST_def parse_protoSyncBody guardedSync_def existingWorkflows_def
        selectWorkflows_def respond_def sampleDb_def sampleRow_def noRejection_def)

section \<open>Workspace authorization\<close>

lemma issuedOperations_append:
  "issuedOperations (xs @ ys) = issuedOperations xs @ issuedOperations ys"
  by (induction xs rule: issuedOperations.induct) simp_all

lemma POST_parsed:
  "truthyString (rq_session req) \<Longrightarrow> rq_body req = Some body \<Longrightarrow>
   parseSyncPayload (newDate ext) body = Inr payload \<Longrightarrow>
   POST ext db clock cache req = guardedSync ext db clock (stringOf (rq_session req)) payload cache"
  by (simp add: POST_def)

lemma guardedSync_passes:
  "sp_workflows payload \<noteq> [] \<or>
   rejecting db SelectExisting = None \<and> existingWorkflows db userId (sp_workspaceId payload) = [] \<Longrightarrow>
   guardedSync ext db clock userId payload cache =
     authorizeSync ext db clock userId payload cache
       (if sp_workflows payload = [] then [Selected SelectExisting] else [])"
  by (auto simp: guardedSync_def)

lemma authorizeSync_not_found:
  "truthyString (sp_workspaceId payload) \<Longrightarrow> rejecting db SelectWorkspace = None \<Longrightarrow>
   stringOf (sp_workspaceId payload) \<notin> set (workspaceTable db) \<Longrightarrow>
   authorizeSync ext db clock userId payload cache events =
     respond 404 (ErrorCodeBody ''Workspace not found'' ''WORKSPACE_NOT_FOUND'') cache
       (events @ [Selected SelectWorkspace])"
  by (simp add: authorizeSync_def)

lemma authorizeSync_denied:
  "truthyString (sp_workspaceId payload) \<Longrightarrow> rejecting db SelectWorkspace = None \<Longrightarrow>
   stringOf (sp_workspaceId payload) \<in> set (workspaceTable db) \<Longrightarrow>
   vr = verifyWorkspaceMembership (rejecting db) (workspaceMemberTable db)
        (memberClock clock) cache userId (stringOf (sp_workspaceId payload)) \<Longrightarrow>
   \<not> truthyString (vr_role vr) \<Longrightarrow>
   authorizeSync ext db clock userId payload cache events =
     respond 403 (ErrorCodeBody ''Access denied to this workspace'' ''WORKSPACE_ACCESS_DENIED'')
       (vr_cache vr)
       (events @ [Selected SelectWorkspace]
          @ (if vr_queried vr then [Selected SelectWorkspaceMember] else []))"
  by (simp add: authorizeSync_def Let_def)

text \<open>
  C2, as stated, fails for POST: the safeguard against an empty payload comes before the
  validation of the workspace. The user \<open>u\<close> is no member of the workspace \<open>w\<close>, which
  exists (\<open>verifyWorkspaceMembership\<close> returns \<open>null\<close>); to the empty payload for \<open>w\<close> the
  route answers 409, not 403.
\<close>

theorem POST_safeguard_before_authorization_counterexample:
  "''w'' \<in> set (workspaceTable sampleDb) \<and>
   vr_role (verifyWorkspaceMembership (rejecting sampleDb) (workspaceMemberTable sampleDb)
              (memberClock sampleClock) [] ''u'' ''w'') = Null \<and>
   parseSyncPayload (newDate sampleExternals) emptySyncBody =
     Inr \<lparr>sp_workflows = [], sp_workspaceId = Def ''w''\<rparr> \<and>
   rr_response (POST sampleExternals sampleDb sampleClock []
       \<lparr>rq_session = Def ''u'', rq_body = Some emptySyncBody\<rparr>) =
     \<lparr>res_status = 409,
      res_body = ErrorMessageBody ''Sync rejected to prevent data loss''
        ''Client sent empty workflows, but user has existing workflows in database''\<rparr>"
proof -
  have "''w'' \<in> set (workspaceTable sampleDb)"
    by (simp add: sampleDb_def)
  moreover have
    "vr_role (verifyWorkspaceMembership (rejecting sampleDb) (workspaceMemberTable sampleDb)
                (memberClock sampleClock) [] ''u'' ''w'') = Null"
    by (simp add: sample_defs verifyWorkspaceMembership_def queryMembership_def
        selectMembership_def opportunisticCleanup_def cacheKey_def MAX_CACHE_SIZE_def)
  moreover have
    "rr_response (POST sampleExternals sampleDb sampleClock []
         \<lparr>rq_session = Def ''u'', rq_body = Some emptySyncBody\<rparr>) =
       \<lparr>res_status = 409,
        res_body = ErrorMessageBody ''Sync rejected to prevent data loss''
          ''Client sent empty workflows, but user has existing workflows in database''\<rparr>"
    by (simp add: POST_def parse_emptySyncBody guardedSync_def existingWorkflows_def
        selectWorkflows_def respond_def sampleDb_def sampleRow_def noRejection_def)
  ultimately show ?thesis
    using parse_emptySyncBody by simp
qed

text \<open>
  C2, amended. A workspaceId is supplied when it is a non-empty string.
  GET: for a request of an authenticated user that supplies a workspaceId, when the
  select of the workspace resolves: if no workspace row with that id exists the route
  responds 404 with code \<open>WORKSPACE_NOT_FOUND\<close>; if it exists and
  \<open>verifyWorkspaceMembership\<close> returns \<open>null\<close>, the route responds 403 with code
  \<open>WORKSPACE_ACCESS_DENIED\<close> and does not select the workflows.
  POST: the same two answers, with no operation issued and no normalized save, for a
  request of an authenticated user whose body parses with a workspaceId, provided the
  safeguard against an empty payload does not answer first (the payload has workflows,
  or the select of the safeguard resolves and finds no row).
\<close>

theorem workspace_authorization:
  "(truthyString (gq_session greq) \<and> truthyString (gq_workspaceId greq) \<and>
    rejecting db SelectWorkspace = None \<longrightarrow>
      (stringOf (gq_workspaceId greq) \<notin> set (workspaceTable db) \<longrightarrow>
         rr_response (GET db mclock cache greq) =
           \<lparr>res_status = 404, res_body = ErrorCodeBody ''Workspace not found'' ''WORKSPACE_NOT_FOUND''\<rparr> \<and>
         rr_events (GET db mclock cache greq) = [Selected SelectWorkspace]) \<and>
      (stringOf (gq_workspaceId greq) \<in> set (workspaceTable db) \<and>
       vr_role (verifyWorkspaceMembership (rejecting db) (workspaceMemberTable db) mclock cache
                  (stringOf (gq_session greq)) (stringOf (gq_workspaceId greq))) = Null \<longrightarrow>
         rr_response (GET db mclock cache greq) =
           \<lparr>res_status = 403,
            res_body = ErrorCodeBody ''Access denied to this workspace'' ''WORKSPACE_ACCESS_DENIED''\<rparr> \<and>
         Selected SelectWorkflow \<notin> set (rr_events (GET db mclock cache greq)) \<and>
         issuedOperations (rr_events (GET db mclock cache greq)) = [])) \<and>
   (truthyString (rq_session req) \<and> rq_body req = Some body \<and>
    parseSyncPayload (newDate ext) body = Inr payload \<and>
    truthyString (sp_workspaceId payload) \<and>
    (sp_workflows payload \<noteq> [] \<or>
     rejecting db SelectExisting = None \<and>
     existingWorkflows db (stringOf (rq_session req)) (sp_workspaceId payload) = []) \<and>
    rejecting db SelectWorkspace = None \<longrightarrow>
      (stringOf (sp_workspaceId payload) \<notin> set (workspaceTable db) \<longrightarrow>
         rr_response (POST ext db clock cache req) =
           \<lparr>res_status = 404, res_body = ErrorCodeBody ''Workspace not found'' ''WORKSPACE_NOT_FOUND''\<rparr> \<and>
         issuedOperations (rr_events (POST ext db clock cache req)) = [] \<and>
         (\<forall>i a. SavedNormalized i a \<notin> set (rr_events (POST ext db clock cache req)))) \<and>
      (stringOf (sp_workspaceId payload) \<in> set (workspaceTable db) \<and>
       vr_role (verifyWorkspaceMembership (rejecting db) (workspaceMemberTable db) (memberClock clock)
                  cache (stringOf (rq_session req)) (stringOf (sp_workspaceId payload))) = Null \<longrightarrow>
         rr_response (POST ext db clock cache req) =
           \<lparr>res_status = 403,
            res_body = ErrorCodeBody ''Access denied to this workspace'' ''WORKSPACE_ACCESS_DENIED''\<rparr> \<and>
         issuedOperations (rr_events (POST ext db clock cache req)) = [] \<and>
         (\<forall>i a. SavedNormalized i a \<notin> set (rr_events (POST ext db clock cache req)))))"
proof (intro conjI impI; (elim conjE)?)
  assume "truthyString (gq_session greq)" "truthyString (gq_workspaceId greq)"
    "rejecting db SelectWorkspace = None" "stringOf (gq_workspaceId greq) \<notin> set (workspaceTable db)"
  then show "rr_response (GET db mclock cache greq) =
           \<lparr>res_status = 404, res_body = ErrorCodeBody ''Workspace not found'' ''WORKSPACE_NOT_FOUND''\<rparr>"
    and "rr_events (GET db mclock cache greq) = [Selected SelectWorkspace]"
    by (simp_all add: GET_def respond_def)
next
  assume "truthyString (gq_session greq)" "truthyString (gq_workspaceId greq)"
    "rejecting db SelectWorkspace = None" "stringOf (gq_workspaceId greq) \<in> set (workspaceTable db)"
    "vr_role (verifyWorkspaceMembership (rejecting db) (workspaceMemberTable db) mclock cache
                  (stringOf (gq_session greq)) (stringOf (gq_workspaceId greq))) = Null"
  then show "rr_response (GET db mclock cache greq) =
           \<lparr>res_status = 403,
            res_body = ErrorCodeBody ''Access denied to this workspace'' ''WORKSPACE_ACCESS_DENIED''\<rparr>"
    and "Selected SelectWorkflow \<notin> set (rr_events (GET db mclock cache greq))"
    and "issuedOperations (rr_events (GET db mclock cache greq)) = []"
    by (simp_all add: GET_def respond_def Let_def)
next
  assume a: "truthyString (rq_session req)" "rq_body req = Some body"
    "parseSyncPayload (newDate ext) body = Inr payload" "truthyString (sp_workspaceId payload)"
    "sp_workflows payload \<noteq> [] \<or>
     rejecting db SelectExisting = None \<and>
     existingWorkflows db (stringOf (rq_session req)) (sp_workspaceId payload) = []"
    "rejecting db SelectWorkspace = None"
  define ev where "ev = (if sp_workflows payload = [] then [Selected SelectExisting] else [])"
  have P: "POST ext db clock cache req =
      authorizeSync ext db clock (stringOf (rq_session req)) payload cache ev"
    using a by (simp add: POST_parsed guardedSync_passes ev_def)
  have ev: "issuedOperations ev = []" "\<And>i a. SavedNormalized i a \<notin> set ev"
    by (simp_all add: ev_def)
  {
    assume "stringOf (sp_workspaceId payload) \<notin> set (workspaceTable db)"
    with a P ev show "rr_response (POST ext db clock cache req) =
           \<lparr>res_status = 404, res_body = ErrorCodeBody ''Workspace not found'' ''WORKSPACE_NOT_FOUND''\<rparr>"
      and "issuedOperations (rr_events (POST ext db clock cache req)) = []"
      and "\<forall>i a. SavedNormalized i a \<notin> set (rr_events (POST ext db clock cache req))"
      by (simp_all add: authorizeSync_not_found respond_def issuedOperations_append)
  }
  {
    assume b: "stringOf (sp_workspaceId payload) \<in> set (workspaceTable db)"
      "vr_role (verifyWorkspaceMembership (rejecting db) (workspaceMemberTable db) (memberClock clock)
                  cache (stringOf (rq_session req)) (stringOf (sp_workspaceId payload))) = Null"
    have r: "authorizeSync ext db clock (stringOf (rq_session req)) payload cache ev =
        respond 403 (ErrorCodeBody ''Access denied to this workspace'' ''WORKSPACE_ACCESS_DENIED'')
          (vr_cache (verifyWorkspaceMembership (rejecting db) (workspaceMemberTable db)
             (memberClock clock) cache (stringOf (rq_session req)) (stringOf (sp_workspaceId payload))))
          (ev @ [Selected SelectWorkspace]
             @ (if vr_queried (verifyWorkspaceMembership (rejecting db) (workspaceMemberTable db)
                    (memberClock clock) cache (stringOf (rq_session req))
                    (stringOf (sp_workspaceId payload)))
                then [Selected SelectWorkspaceMember] else []))"
      by (rule authorizeSync_denied [OF a(4) a(6) b(1) refl]) (simp add: b(2))
    with P r ev show "rr_response (POST ext db clock cache req) =
           \<lparr>res_status = 403,
            res_body = ErrorCodeBody ''Access denied to this workspace'' ''WORKSPACE_ACCESS_DENIED''\<rparr>"
      and "issuedOperations (rr_events (POST ext db clock cache req)) = []"
      and "\<forall>i a. SavedNormalized i a \<notin> set (rr_events (POST ext db clock cache req))"
      by (auto simp: respond_def issuedOperations_append)
  }
qed

theorem workspace_authorization_witness:
  "rr_response (GET sampleDb (memberClock sampleClock) []
       \<lparr>gq_session = Def ''u'', gq_workspaceId = Def ''w''\<rparr>) =
     \<lparr>res_status = 403,
      res_body = ErrorCodeBody ''Access denied to this workspace'' ''WORKSPACE_ACCESS_DENIED''\<rparr> \<and>
   rr_response (GET sampleDb (memberClock sampleClock) []
       \<lparr>gq_session = Def ''u'', gq_workspaceId = Def ''x''\<rparr>) =
     \<lparr>res_status = 404, res_body = ErrorCodeBody ''Workspace not found'' ''WORKSPACE_NOT_FOUND''\<rparr> \<and>
   rr_response (POST sampleExternals sampleDb sampleClock []
       \<lparr>rq_session = Def ''u'', rq_body = Some syncBody\<rparr>) =
     \<lparr>res_status = 403,
      res_body = ErrorCodeBody ''Access denied to this workspace'' ''WORKSPACE_ACCESS_DENIED''\<rparr> \<and>
   issuedOperations (rr_events (POST sampleExternals sampleDb sampleClock []
       \<lparr>rq_session = Def ''u'', rq_body = Some syncBody\<rparr>)) = []"
proof -
  have m: "vr_role (verifyWorkspaceMembership (rejecting sampleDb) (workspaceMemberTable sampleDb)
                (memberClock sampleClock) [] ''u'' ''w'') = Null"
    by (simp add: sample_defs verifyWorkspaceMembership_def queryMembership_def
        selectMembership_def opportunisticCleanup_def cacheKey_def MAX_CACHE_SIZE_def)
  have d: "rejecting sampleDb SelectWorkspace = None" "workspaceTable sampleDb = [''w'']"
    by (simp_all add: sampleDb_def noRejection_def)
  have p: "sp_workflows samplePayload \<noteq> []" "sp_workspaceId samplePayload = Def ''w''"
    by (simp_all add: samplePayload_def)
  show ?thesis
    using workspace_authorization [of "\<lparr>gq_session = Def ''u'', gq_workspaceId = Def ''w''\<rparr>"
        sampleDb "memberClock sampleClock" "[]" "\<lparr>rq_session = Def ''u'', rq_body = Some syncBody\<rparr>"
        syncBody sampleExternals samplePayload sampleClock]
      workspace_authorization [of "\<lparr>gq_session = Def ''u'', gq_workspaceId = Def ''x''\<rparr>"
        sampleDb "memberClock sampleClock" "[]" "\<lparr>rq_session = Def ''u'', rq_body = Some syncBody\<rparr>"
        syncBody sampleExternals samplePayload sampleClock]
    by (simp add: m d p parse_syncBody)
qed

section \<open>The successful sync\<close>

lemma issuedOperations_Issued [simp]: "issuedOperations (map Issued ops) = ops"
  by (induction ops) simp_all

lemma issuedOperations_saved [simp]:
  "issuedOperations (map (\<lambda>r. SavedNormalized (f r) (g r)) results) = []"
  by (induction results) simp_all

lemma syncWorkflows_events:
  "\<exists>st b. syncWorkflows ext db clock userId payload userRole cache events =
     respond st b cache (events @ [Selected SelectWorkflow]) \<and> st = 500
   \<or> syncWorkflows ext db clock userId payload userRole cache events =
     respond st b cache
       (events @ [Selected SelectWorkflow]
        @ savedEvents (processClientWorkflows ext db clock userId payload userRole)
        @ map Issued (pushedOperations (processClientWorkflows ext db clock userId payload userRole)))
     \<and> (st = 500 \<or> st = 200 \<and>
          b = SuccessBody (endTime clock - startTime clock)
                (length (pushedOperations (processClientWorkflows ext db clock userId payload userRole)))
                (length (sp_workflows payload)))"
  by (auto simp: syncWorkflows_def Let_def syncFailed_def savedEvents_def split: option.splits)

lemma syncWorkflows_ok:
  assumes "res_status (rr_response (syncWorkflows ext db clock userId payload userRole cache events)) = 200"
  shows "syncWorkflows ext db clock userId payload userRole cache events =
     respond 200
       (SuccessBody (endTime clock - startTime clock)
                (length (pushedOperations (processClientWorkflows ext db clock userId payload userRole)))
                (length (sp_workflows payload)))
       cache
       (events @ [Selected SelectWorkflow]
        @ savedEvents (processClientWorkflows ext db clock userId payload userRole)
        @ map Issued (pushedOperations (processClientWorkflows ext db clock userId payload userRole)))"
  using assms
  by (auto simp: syncWorkflows_def Let_def syncFailed_def savedEvents_def respond_def split: option.splits if_splits)

lemma authorizeSync_passes:
  "authorizationPasses db clock cache userId payload \<Longrightarrow>
   authorizeSync ext db clock userId payload cache events =
     syncWorkflows ext db clock userId payload (syncUserRole db clock cache userId payload)
       (authorizedCache db clock cache userId payload)
       (events @ authorizationEvents db clock cache userId payload)"
  by (auto simp: authorizationPasses_def authorizeSync_def syncUserRole_def authorizedCache_def
      authorizationEvents_def Let_def)

lemma authorizeSync_ok:
  assumes "res_status (rr_response (authorizeSync ext db clock userId payload cache events)) = 200"
  shows "authorizationPasses db clock cache userId payload"
proof (rule ccontr)
  assume n: "\<not> authorizationPasses db clock cache userId payload"
  then have t: "truthyString (sp_workspaceId payload)"
    by (simp add: authorizationPasses_def)
  show False
  proof (cases "rejecting db SelectWorkspace")
    case (Some msg)
    with t assms show False
      by (simp add: authorizeSync_def syncFailed_def respond_def)
  next
    case None
    show False
    proof (cases "stringOf (sp_workspaceId payload) \<in> set (workspaceTable db)")
      case False
      with t None assms show False
        by (simp add: authorizeSync_def respond_def)
    next
      case True
      with n t None have "\<not> truthyString (syncUserRole db clock cache userId payload)"
        by (simp add: authorizationPasses_def)
      with t None True assms show False
        by (simp add: authorizeSync_def respond_def Let_def syncUserRole_def)
    qed
  qed
qed

lemma guardedSync_ok:
  assumes "res_status (rr_response (guardedSync ext db clock userId payload cache)) = 200"
  shows "guardedSync ext db clock userId payload cache =
     authorizeSync ext db clock userId payload cache
       (if sp_workflows payload = [] then [Selected SelectExisting] else [])"
  using assms
  by (auto simp: guardedSync_def syncFailed_def respond_def split: option.splits if_splits)

lemma POST_ok_parsed:
  assumes "res_status (rr_response (POST ext db clock cache req)) = 200"
  shows "truthyString (rq_session req) \<and>
         (\<exists>body payload. rq_body req = Some body \<and> parseSyncPayload (newDate ext) body = Inr payload)"
  using assms
  by (auto simp: POST_def syncFailed_def respond_def split: option.splits if_splits sum.splits)

text \<open>The events of a successful POST.\<close>

lemma POST_ok_events:
  assumes ok: "res_status (rr_response (POST ext db clock cache req)) = 200"
    and body: "rq_body req = Some body"
    and parse: "parseSyncPayload (newDate ext) body = Inr payload"
  shows "\<exists>pre. (\<forall>e \<in> set pre. \<exists>q. e = Selected q) \<and>
     rr_events (POST ext db clock cache req) =
       pre @ savedEvents (processClientWorkflows ext db clock (stringOf (rq_session req)) payload
                            (syncUserRole db clock cache (stringOf (rq_session req)) payload))
           @ map Issued (pushedOperations
               (processClientWorkflows ext db clock (stringOf (rq_session req)) payload
                  (syncUserRole db clock cache (stringOf (rq_session req)) payload)))"
proof -
  let ?u = "stringOf (rq_session req)"
  let ?ev = "if sp_workflows payload = [] then [Selected SelectExisting] else []"
  from POST_ok_parsed [OF ok] have s: "truthyString (rq_session req)" by simp
  have 1: "POST ext db clock cache req = guardedSync ext db clock ?u payload cache"
    using s body parse by (rule POST_parsed)
  have 2: "guardedSync ext db clock ?u payload cache = authorizeSync ext db clock ?u payload cache ?ev"
    using ok unfolding 1 by (rule guardedSync_ok)
  have 3: "authorizationPasses db clock cache ?u payload"
    using ok unfolding 1 2 by (rule authorizeSync_ok)
  have 4: "authorizeSync ext db clock ?u payload cache ?ev =
     syncWorkflows ext db clock ?u payload (syncUserRole db clock cache ?u payload)
       (authorizedCache db clock cache ?u payload)
       (?ev @ authorizationEvents db clock cache ?u payload)"
    using 3 by (rule authorizeSync_passes)
  have 5: "rr_events (POST ext db clock cache req) =
       (?ev @ authorizationEvents db clock cache ?u payload) @ [Selected SelectWorkflow]
        @ savedEvents (processClientWorkflows ext db clock ?u payload (syncUserRole db clock cache ?u payload))
        @ map Issued (pushedOperations
             (processClientWorkflows ext db clock ?u payload (syncUserRole db clock cache ?u payload)))"
    using ok unfolding 1 2 4 by (simp add: syncWorkflows_ok respond_def)
  show ?thesis
    by (rule exI [of _ "(?ev @ authorizationEvents db clock cache ?u payload) @ [Selected SelectWorkflow]"])
       (auto simp: 5 authorizationEvents_def)
qed

lemma POST_ok_issued:
  assumes ok: "res_status (rr_response (POST ext db clock cache req)) = 200"
    and body: "rq_body req = Some body"
    and parse: "parseSyncPayload (newDate ext) body = Inr payload"
  shows "issuedOperations (rr_events (POST ext db clock cache req)) =
     pushedOperations (processClientWorkflows ext db clock (stringOf (rq_session req)) payload
                  (syncUserRole db clock cache (stringOf (rq_session req)) payload))"
proof -
  from POST_ok_events [OF assms] obtain pre where
    pre: "\<forall>e \<in> set pre. \<exists>q. e = Selected q" and
    ev: "rr_events (POST ext db clock cache req) =
       pre @ savedEvents (processClientWorkflows ext db clock (stringOf (rq_session req)) payload
                            (syncUserRole db clock cache (stringOf (rq_session req)) payload))
           @ map Issued (pushedOperations
               (processClientWorkflows ext db clock (stringOf (rq_session req)) payload
                  (syncUserRole db clock cache (stringOf (rq_session req)) payload)))"
    by blast
  have "issuedOperations pre = []"
    using pre by (induction pre rule: issuedOperations.induct) auto
  then show ?thesis
    by (simp add: ev issuedOperations_append savedEvents_def)
qed

section \<open>One client workflow\<close>

lemma fst_assignWhen: "fst (assignWhen c f d) = (c \<or> fst d)"
  by (simp add: assignWhen_def)

lemma assignWhen_deployedState:
  "(\<And>u. ud_deployedState (f u) = ud_deployedState u) \<Longrightarrow>
   ud_deployedState (snd (assignWhen c f d)) = ud_deployedState (snd d)"
  by (simp add: assignWhen_def)

lemma assignWhen_state:
  "(\<And>u. ud_state (f u) = ud_state u) \<Longrightarrow>
   ud_state (snd (assignWhen c f d)) = ud_state (snd d)"
  by (simp add: assignWhen_def)

lemma assignWhen_state_set:
  "ud_state (snd (assignWhen c (\<lambda>u. u\<lparr>ud_state := Some t\<rparr>) d)) = (if c then Some t else ud_state (snd d))"
  by (simp add: assignWhen_def)

lemma timeOrNull_objectOrNull: "timeOrNull (objectOrNull d) = timeOrNull d"
  by (cases d) (simp_all add: objectOrNull_def)

lemma truthyBool_default: "truthyBool b = (case b of Def x \<Rightarrow> x | _ \<Rightarrow> False)"
  by (cases b) simp_all

lemma diffWorkflow_needsUpdate:
  "fst (diffWorkflow ext dbWorkflow cw effective toSave) =
     comparedFieldsDiffer ext dbWorkflow cw effective toSave"
  unfolding diffWorkflow_def Let_def comparedFieldsDiffer_def
  by (simp only: fst_assignWhen fst_conv timeOrNull_objectOrNull truthyBool_default stringOrNull_def)
     blast

lemma diffWorkflow_deployedState:
  "ud_deployedState (snd (diffWorkflow ext dbWorkflow cw effective toSave)) = None"
  unfolding diffWorkflow_def Let_def
  by (simp add: assignWhen_deployedState emptyUpdateData_def)

lemma diffWorkflow_state:
  "ud_state (snd (diffWorkflow ext dbWorkflow cw effective toSave)) =
     (if stringifyState ext (row_state dbWorkflow) \<noteq> stringifyState ext toSave then Some toSave else None)"
  unfolding diffWorkflow_def Let_def
  by (simp add: assignWhen_state assignWhen_state_set emptyUpdateData_def)

lemma pushedOperations_iff:
  "op \<in> set (pushedOperations results) \<longleftrightarrow> (\<exists>r \<in> set results. pushed r = Some op)"
  by (force simp: pushedOperations_def split: option.splits)

lemma processClientWorkflow_saveCall:
  "saveCall (processClientWorkflow ext userId workspaceId userRole now dbWorkflows (i, cw)) =
     (i, normalizedArgs (migrateLegacyPublished cw))"
  by (simp add: processClientWorkflow_def Let_def)

lemma processClientWorkflow_pushed:
  "pushed (processClientWorkflow ext userId workspaceId userRole now dbWorkflows (i, cw)) =
     (case dbWorkflowMapGet dbWorkflows i of
        None \<Rightarrow>
          Some (Insert (insertValues userId now
                  (effectiveWorkspaceId (migrateLegacyPublished cw) workspaceId)
                  (chosenState ext i cw) (migrateLegacyPublished cw)))
      | Some dbWorkflow \<Rightarrow>
          if canUpdate dbWorkflow userId workspaceId userRole \<and>
             fst (diffWorkflow ext dbWorkflow (migrateLegacyPublished cw)
                    (effectiveWorkspaceId (migrateLegacyPublished cw) workspaceId)
                    (chosenState ext i cw))
          then Some (Update
                 ((snd (diffWorkflow ext dbWorkflow (migrateLegacyPublished cw)
                          (effectiveWorkspaceId (migrateLegacyPublished cw) workspaceId)
                          (chosenState ext i cw)))
                    \<lparr>ud_lastSynced := Some now, ud_updatedAt := Some now\<rparr>) i)
          else None)"
  by (simp add: processClientWorkflow_def Let_def chosenState_def split: option.splits)

lemma processClientWorkflow_respects:
  "pushed (processClientWorkflow ext userId workspaceId userRole now dbWorkflows entry) = Some op \<Longrightarrow>
   respectsDeployedState op"
  by (cases entry)
     (auto simp: processClientWorkflow_pushed insertValues_def diffWorkflow_deployedState
       split: option.splits if_splits)

lemma processClientWorkflow_update_key:
  "pushed (processClientWorkflow ext userId workspaceId userRole now dbWorkflows entry) = Some (Update u i) \<Longrightarrow>
   fst entry = i"
  by (cases entry) (auto simp: processClientWorkflow_pushed split: option.splits if_splits)

lemma processClientWorkflow_state:
  "pushed (processClientWorkflow ext userId workspaceId userRole now dbWorkflows (i, cw)) = Some op \<Longrightarrow>
   writtenState op = None \<or> writtenState op = Some (chosenState ext i cw)"
  by (auto simp: processClientWorkflow_pushed insertValues_def diffWorkflow_state
       split: option.splits if_splits)

lemma POST_issued_from_processing:
  "op \<in> set (issuedOperations (rr_events (POST ext db clock cache req))) \<Longrightarrow>
   \<exists>userId payload userRole.
     op \<in> set (pushedOperations (processClientWorkflows ext db clock userId payload userRole))"
  by (auto simp: POST_def guardedSync_def authorizeSync_def syncWorkflows_def Let_def respond_def
      syncFailed_def issuedOperations_append
      split: option.splits sum.splits if_splits)

lemma dualWriteState_chosen: "dualWriteState ext i cw (chosenState ext i cw)"
  by (auto simp: dualWriteState_def chosenState_def stateToSave_def Let_def migrateLegacyPublished_def
      split: maybe.splits)

lemma dualWriteState_unique:
  "dualWriteState ext i cw s \<Longrightarrow> s = chosenState ext i cw"
  by (auto simp: dualWriteState_def chosenState_def stateToSave_def Let_def migrateLegacyPublished_def
      split: maybe.splits if_splits)

lemma processClientWorkflow_inserts:
  "dbWorkflowMapGet dbWorkflows i = None \<Longrightarrow>
   \<exists>v. pushed (processClientWorkflow ext userId workspaceId userRole now dbWorkflows (i, cw)) =
         Some (Insert v) \<and>
       row_id v = cw_id cw \<and> row_state v = chosenState ext i cw"
  by (simp add: processClientWorkflow_pushed insertValues_def migrateLegacyPublished_def)

lemma processClientWorkflow_updates_state:
  assumes "dbWorkflowMapGet dbWorkflows i = Some dbWorkflow"
    and "canUpdate dbWorkflow userId workspaceId userRole"
    and "stringifyState ext (row_state dbWorkflow) \<noteq> stringifyState ext (chosenState ext i cw)"
  shows "\<exists>u. pushed (processClientWorkflow ext userId workspaceId userRole now dbWorkflows (i, cw)) =
         Some (Update u i) \<and>
       ud_state u = Some (chosenState ext i cw)"
proof -
  from assms(3) have "fst (diffWorkflow ext dbWorkflow (migrateLegacyPublished cw)
                    (effectiveWorkspaceId (migrateLegacyPublished cw) workspaceId)
                    (chosenState ext i cw))"
    by (simp add: diffWorkflow_needsUpdate comparedFieldsDiffer_def)
  with assms show ?thesis
    by (simp add: processClientWorkflow_pushed diffWorkflow_state)
qed

lemma processClientWorkflows_nth:
  "processClientWorkflows ext db clock userId payload userRole =
     map (processClientWorkflow ext userId (sp_workspaceId payload) userRole (Date (syncNow clock))
            (selectWorkflows db userId (sp_workspaceId payload)))
         (sp_workflows payload)"
  by (simp add: processClientWorkflows_def)

lemma distinct_keys_unique:
  "distinct (map fst xs) \<Longrightarrow> (k, a) \<in> set xs \<Longrightarrow> (k, b) \<in> set xs \<Longrightarrow> b = a"
  by (induction xs) (auto simp: image_iff)

lemma update_issued_iff:
  assumes keys: "distinct (map fst (sp_workflows payload))"
    and entry: "(i, cw) \<in> set (sp_workflows payload)"
  shows "(\<exists>u. Update u i \<in> set (pushedOperations (processClientWorkflows ext db clock userId payload userRole))) \<longleftrightarrow>
         (\<exists>u. pushed (processClientWorkflow ext userId (sp_workspaceId payload) userRole
                   (Date (syncNow clock)) (selectWorkflows db userId (sp_workspaceId payload)) (i, cw))
               = Some (Update u i))"
proof
  assume "\<exists>u. Update u i \<in> set (pushedOperations (processClientWorkflows ext db clock userId payload userRole))"
  then obtain u e where e: "e \<in> set (sp_workflows payload)" and
    p: "pushed (processClientWorkflow ext userId (sp_workspaceId payload) userRole
                   (Date (syncNow clock)) (selectWorkflows db userId (sp_workspaceId payload)) e)
        = Some (Update u i)"
    by (auto simp: pushedOperations_iff processClientWorkflows_def)
  from processClientWorkflow_update_key [OF p] have "fst e = i" .
  with e have "(i, snd e) \<in> set (sp_workflows payload)" by (cases e) auto
  with keys entry have "snd e = cw" by (rule distinct_keys_unique)
  with \<open>fst e = i\<close> have "e = (i, cw)" by (cases e) auto
  with p show "\<exists>u. pushed (processClientWorkflow ext userId (sp_workspaceId payload) userRole
                   (Date (syncNow clock)) (selectWorkflows db userId (sp_workspaceId payload)) (i, cw))
               = Some (Update u i)"
    by auto
next
  assume "\<exists>u. pushed (processClientWorkflow ext userId (sp_workspaceId payload) userRole
                   (Date (syncNow clock)) (selectWorkflows db userId (sp_workspaceId payload)) (i, cw))
               = Some (Update u i)"
  with entry show "\<exists>u. Update u i \<in> set (pushedOperations (processClientWorkflows ext db clock userId payload userRole))"
    by (force simp: pushedOperations_iff processClientWorkflows_def)
qed

lemma pushedOperations_skip:
  "\<forall>x \<in> set xs. \<not> P x \<longrightarrow> pushed (f x) = None \<Longrightarrow>
   pushedOperations (map f xs) = pushedOperations (map f (filter P xs))"
  by (induction xs) (auto simp: pushedOperations_def)

lemma authorized_sync:
  assumes "truthyString (rq_session req)" "rq_body req = Some body"
    "parseSyncPayload (newDate ext) body = Inr payload"
    "sp_workflows payload \<noteq> []"
    "rejecting db = noRejection"
    "stringOf (sp_workspaceId payload) \<in> set (workspaceTable db)"
    "truthyString (syncUserRole db clock cache (stringOf (rq_session req)) payload)"
  shows "\<exists>c ev. issuedOperations ev = [] \<and>
     POST ext db clock cache req =
     respond 200
       (SuccessBody (endTime clock - startTime clock)
          (length (pushedOperations (processClientWorkflows ext db clock (stringOf (rq_session req)) payload
             (syncUserRole db clock cache (stringOf (rq_session req)) payload))))
          (length (sp_workflows payload)))
       c
       (ev @ map Issued (pushedOperations (processClientWorkflows ext db clock (stringOf (rq_session req)) payload
             (syncUserRole db clock cache (stringOf (rq_session req)) payload))))"
proof -
  let ?u = "stringOf (rq_session req)"
  let ?role = "syncUserRole db clock cache ?u payload"
  let ?results = "processClientWorkflows ext db clock ?u payload ?role"
  have r: "\<And>q. rejecting db q = None"
    using assms(5) by (simp add: noRejection_def)
  have 1: "POST ext db clock cache req = guardedSync ext db clock ?u payload cache"
    using assms(1-3) by (rule POST_parsed)
  have 2: "guardedSync ext db clock ?u payload cache = authorizeSync ext db clock ?u payload cache []"
    using assms(4) by (simp add: guardedSync_passes)
  have 3: "authorizationPasses db clock cache ?u payload"
    using assms(6,7) r by (simp add: authorizationPasses_def)
  have 4: "authorizeSync ext db clock ?u payload cache [] =
     syncWorkflows ext db clock ?u payload ?role (authorizedCache db clock cache ?u payload)
       ([] @ authorizationEvents db clock cache ?u payload)"
    using 3 by (rule authorizeSync_passes)
  have 5: "syncWorkflows ext db clock ?u payload ?role (authorizedCache db clock cache ?u payload)
       ([] @ authorizationEvents db clock cache ?u payload) =
     respond 200
       (SuccessBody (endTime clock - startTime clock) (length (pushedOperations ?results))
          (length (sp_workflows payload)))
       (authorizedCache db clock cache ?u payload)
       ((authorizationEvents db clock cache ?u payload @ [Selected SelectWorkflow] @ savedEvents ?results)
          @ map Issued (pushedOperations ?results))"
    by (simp add: syncWorkflows_def r Let_def savedEvents_def)
  have 6: "issuedOperations (authorizationEvents db clock cache ?u payload @ [Selected SelectWorkflow]
              @ savedEvents ?results) = []"
    by (simp add: issuedOperations_append authorizationEvents_def savedEvents_def)
  show ?thesis
    unfolding 1 2 4 5 using 6 by blast
qed

section \<open>The operations on the table\<close>

lemma length_execOperation: "length tbl \<le> length (execOperation op tbl)"
  by (cases op) simp_all

lemma length_execOperations: "length tbl \<le> length (execOperations ops tbl)"
  unfolding execOperations_def
proof (induction ops arbitrary: tbl)
  case Nil
  then show ?case by simp
next
  case (Cons op ops)
  from length_execOperation [of tbl op] Cons.IH [of "execOperation op tbl"]
  show ?case by simp
qed

lemma applyUpdate_deployedState:
  "ud_deployedState u = None \<Longrightarrow> row_deployedState (applyUpdate u w) = row_deployedState w"
  by (simp add: applyUpdate_def)

lemma execOperation_deployedState:
  "respectsDeployedState op \<Longrightarrow> n < length tbl \<Longrightarrow>
   row_deployedState (execOperation op tbl ! n) = row_deployedState (tbl ! n)"
  by (cases op) (simp_all add: nth_append applyUpdate_deployedState)

lemma execOperations_deployedState:
  "\<forall>op \<in> set ops. respectsDeployedState op \<Longrightarrow> n < length tbl \<Longrightarrow>
   row_deployedState (execOperations ops tbl ! n) = row_deployedState (tbl ! n)"
  unfolding execOperations_def
proof (induction ops arbitrary: tbl)
  case Nil
  then show ?case by simp
next
  case (Cons op ops)
  from Cons.prems have n: "n < length (execOperation op tbl)"
    using length_execOperation [of tbl op] by simp
  from Cons.prems have "row_deployedState (fold execOperation ops (execOperation op tbl) ! n) =
      row_deployedState (execOperation op tbl ! n)"
    by (intro Cons.IH n) simp
  with Cons.prems show ?case
    by (simp add: execOperation_deployedState)
qed

lemma execOperation_added:
  "respectsDeployedState op \<Longrightarrow> length tbl \<le> n \<Longrightarrow> n < length (execOperation op tbl) \<Longrightarrow>
   row_deployedState (execOperation op tbl ! n) = Null"
  by (cases op) (auto simp: nth_append storedRow_def)

lemma execOperations_added:
  "\<forall>op \<in> set ops. respectsDeployedState op \<Longrightarrow> length tbl \<le> n \<Longrightarrow>
   n < length (execOperations ops tbl) \<Longrightarrow>
   row_deployedState (execOperations ops tbl ! n) = Null"
proof (induction ops arbitrary: tbl)
  case Nil
  then show ?case by (simp add: execOperations_def)
next
  case (Cons op ops)
  have e: "execOperations (op # ops) tbl = execOperations ops (execOperation op tbl)"
    by (simp add: execOperations_def)
  show ?case
  proof (cases "n < length (execOperation op tbl)")
    case True
    with Cons.prems have "row_deployedState (execOperations ops (execOperation op tbl) ! n) =
        row_deployedState (execOperation op tbl ! n)"
      by (intro execOperations_deployedState) simp_all
    with Cons.prems True show ?thesis
      by (simp add: e execOperation_added)
  next
    case False
    with Cons.prems show ?thesis
      unfolding e by (intro Cons.IH) simp_all
  qed
qed

lemma execOperation_untouched:
  "(\<And>u. op \<noteq> Update u i) \<Longrightarrow> n < length tbl \<Longrightarrow> row_id (tbl ! n) = i \<Longrightarrow>
   execOperation op tbl ! n = tbl ! n"
  by (cases op) (auto simp: nth_append)

lemma execOperations_untouched:
  "\<forall>u. Update u i \<notin> set ops \<Longrightarrow> n < length tbl \<Longrightarrow> row_id (tbl ! n) = i \<Longrightarrow>
   execOperations ops tbl ! n = tbl ! n"
proof (induction ops arbitrary: tbl)
  case Nil
  then show ?case by (simp add: execOperations_def)
next
  case (Cons op ops)
  have e: "execOperations (op # ops) tbl = execOperations ops (execOperation op tbl)"
    by (simp add: execOperations_def)
  from Cons.prems have o: "execOperation op tbl ! n = tbl ! n"
    by (intro execOperation_untouched) auto
  from Cons.prems have "execOperations ops (execOperation op tbl) ! n = execOperation op tbl ! n"
    using length_execOperation [of tbl op] o by (intro Cons.IH) auto
  with o show ?case by (simp add: e)
qed

section \<open>The sample requests\<close>

lemma parse_unchangedSyncBody:
  "parseSyncPayload (newDate sampleExternals) unchangedSyncBody = Inr unchangedPayload"
  by (simp add: unchangedSyncBody_def workflowJson_def zod_defs unchangedPayload_def sampleWorkflow_def)

lemma sample_role_member:
  "syncUserRole sampleDb sampleClock [] ''m'' samplePayload = Def ''member''"
  "syncUserRole sampleDb sampleClock [] ''m'' unchangedPayload = Def ''member''"
  by (simp_all add: syncUserRole_def samplePayload_def unchangedPayload_def sampleDb_def sampleClock_def
      verifyWorkspaceMembership_def queryMembership_def selectMembership_def
      opportunisticCleanup_def cacheKey_def MAX_CACHE_SIZE_def noRejection_def)

lemma sample_role_viewer:
  "syncUserRole sampleDb sampleClock [] ''v'' samplePayload = Def ''viewer''"
  by (simp add: syncUserRole_def samplePayload_def sampleDb_def sampleClock_def
      verifyWorkspaceMembership_def queryMembership_def selectMembership_def
      opportunisticCleanup_def cacheKey_def MAX_CACHE_SIZE_def noRejection_def)

lemma sample_select:
  "selectWorkflows sampleDb u (Def ''w'') = [sampleRow]"
  by (simp add: selectWorkflows_def sampleDb_def sampleRow_def)

lemma sample_lookup:
  "dbWorkflowMapGet [sampleRow] ''a'' = Some sampleRow"
  "dbWorkflowMapGet [sampleRow] ''b'' = None"
  by (simp_all add: dbWorkflowMapGet_def sampleRow_def)

lemma memberRequest_issued:
  "res_status (rr_response (POST sampleExternals sampleDb sampleClock [] memberRequest)) = 200"
  "issuedOperations (rr_events (POST sampleExternals sampleDb sampleClock [] memberRequest)) =
     [Update sampleUpdate ''a'', Insert (sampleInsert ''m'')]"
  by (simp_all add: memberRequest_def POST_def parse_syncBody)
     (simp_all add: route_defs sample_defs sampleUpdate_def sampleInsert_def Let_def)

lemma viewerRequest_issued:
  "issuedOperations (rr_events (POST sampleExternals sampleDb sampleClock [] viewerRequest)) =
     [Insert (sampleInsert ''v'')]"
  by (simp add: viewerRequest_def POST_def parse_syncBody)
     (simp add: route_defs sample_defs sampleInsert_def Let_def)

lemma unchangedRequest_issued:
  "res_status (rr_response (POST sampleExternals sampleDb sampleClock [] unchangedRequest)) = 200"
  "issuedOperations (rr_events (POST sampleExternals sampleDb sampleClock [] unchangedRequest)) = []"
  by (simp_all add: unchangedRequest_def POST_def parse_unchangedSyncBody)
     (simp_all add: route_defs sample_defs unchangedPayload_def Let_def)

lemma memberRequest_fields:
  "truthyString (rq_session memberRequest)" "rq_body memberRequest = Some syncBody"
  "stringOf (rq_session memberRequest) = ''m''"
  by (simp_all add: memberRequest_def)

lemma viewerRequest_fields:
  "truthyString (rq_session viewerRequest)" "rq_body viewerRequest = Some syncBody"
  "stringOf (rq_session viewerRequest) = ''v''"
  by (simp_all add: viewerRequest_def)

lemma unchangedRequest_fields:
  "truthyString (rq_session unchangedRequest)" "rq_body unchangedRequest = Some unchangedSyncBody"
  "stringOf (rq_session unchangedRequest) = ''m''"
  by (simp_all add: unchangedRequest_def)

lemma sample_role_more:
  "syncUserRole sampleDb sampleClock [] ''m'' changedPayload = Def ''member''"
  "syncUserRole sampleDb sampleClock [] ''m'' publishedPayload = Def ''member''"
  "syncUserRole sampleDb sampleClock [] ''u'' samplePayload = Null"
  by (simp_all add: syncUserRole_def changedPayload_def publishedPayload_def samplePayload_def
      sampleDb_def sampleClock_def
      verifyWorkspaceMembership_def queryMembership_def selectMembership_def
      opportunisticCleanup_def cacheKey_def MAX_CACHE_SIZE_def noRejection_def)

lemma changedRequest_issued:
  "res_status (rr_response (POST sampleExternals sampleDb sampleClock [] changedRequest)) = 200"
  "issuedOperations (rr_events (POST sampleExternals sampleDb sampleClock [] changedRequest)) =
     [Update changedUpdate ''a'']"
  by (simp_all add: changedRequest_def POST_def parse_changedSyncBody)
     (simp_all add: route_defs sample_defs changedPayload_def changedUpdate_def Let_def)

lemma publishedRequest_issued:
  "res_status (rr_response (POST sampleExternals sampleDb sampleClock [] publishedRequest)) = 200"
  "issuedOperations (rr_events (POST sampleExternals sampleDb sampleClock [] publishedRequest)) =
     [Update publishedUpdate ''a'']"
  by (simp_all add: publishedRequest_def POST_def parse_publishedSyncBody)
     (simp_all add: route_defs sample_defs publishedPayload_def publishedWorkflow_def
        publishedUpdate_def Let_def)

lemma changedRequest_fields:
  "truthyString (rq_session changedRequest)" "rq_body changedRequest = Some changedSyncBody"
  "stringOf (rq_session changedRequest) = ''m''"
  by (simp_all add: changedRequest_def)

lemma sample_dualWriteState:
  "dualWriteState sampleExternals i (sampleWorkflow i n b) s \<longleftrightarrow>
     s = JsonBlob (JObj [(''blocks'', JObj [(b, JObj [])]), (''edges'', JArr []),
                         (''loops'', JObj []), (''parallels'', JObj [])])"
  by (simp add: dualWriteState_def sampleExternals_def sampleSave_def normalizedArgs_def
      migrateLegacyPublished_def sampleWorkflow_def)

lemma sampleDb_table: "workflowTable sampleDb = [sampleRow]"
  by (simp add: sampleDb_def)

lemma sampleRow_differs:
  "comparedFieldsDiffer sampleExternals sampleRow (sampleWorkflow ''a'' ''A renamed'' ''b1'')
     (Def ''w'') s"
  by (simp add: comparedFieldsDiffer_def sampleRow_def sampleWorkflow_def)

lemma sampleRow_same:
  "\<not> comparedFieldsDiffer sampleExternals sampleRow (sampleWorkflow ''a'' ''A'' ''b1'') (Def ''w'')
       (chosenState sampleExternals ''a'' (sampleWorkflow ''a'' ''A'' ''b1''))"
  by (simp add: comparedFieldsDiffer_def sampleRow_def sampleWorkflow_def chosenState_def
      stateToSave_def sampleExternals_def sampleSave_def normalizedArgs_def migrateLegacyPublished_def
      sampleStringifyState_def blockNames_def strictNeqNumber_def)

section \<open>The deployed state is preserved\<close>

text \<open>
  C9. Whatever the request, every update the POST route issues leaves the property
  \<open>deployedState\<close> of its update data unassigned, and every insert stores null in
  \<open>deployedState\<close>. So, once the operations have run, every row that was in the table
  has the \<open>deployedState\<close> it had, and every row that was added has null.
\<close>

theorem POST_preserves_deployedState:
  "(\<forall>op \<in> set (issuedOperations (rr_events (POST ext db clock cache req))).
      case op of Insert v \<Rightarrow> row_deployedState v = Null | Update u i \<Rightarrow> ud_deployedState u = None) \<and>
   (\<forall>n < length (workflowTable db).
      row_deployedState
        (execOperations (issuedOperations (rr_events (POST ext db clock cache req)))
           (workflowTable db) ! n) =
      row_deployedState (workflowTable db ! n)) \<and>
   (\<forall>n. length (workflowTable db) \<le> n \<and>
        n < length (execOperations (issuedOperations (rr_events (POST ext db clock cache req)))
                     (workflowTable db)) \<longrightarrow>
      row_deployedState
        (execOperations (issuedOperations (rr_events (POST ext db clock cache req)))
           (workflowTable db) ! n) = Null)"
proof -
  have r: "\<forall>op \<in> set (issuedOperations (rr_events (POST ext db clock cache req))).
      respectsDeployedState op"
  proof
    fix op assume "op \<in> set (issuedOperations (rr_events (POST ext db clock cache req)))"
    from POST_issued_from_processing [OF this] obtain userId payload userRole where
      "op \<in> set (pushedOperations (processClientWorkflows ext db clock userId payload userRole))"
      by blast
    then show "respectsDeployedState op"
      by (auto simp: pushedOperations_iff processClientWorkflows_def
          dest: processClientWorkflow_respects)
  qed
  have "\<forall>op \<in> set (issuedOperations (rr_events (POST ext db clock cache req))).
      case op of Insert v \<Rightarrow> row_deployedState v = Null | Update u i \<Rightarrow> ud_deployedState u = None"
  proof
    fix op assume "op \<in> set (issuedOperations (rr_events (POST ext db clock cache req)))"
    with r have "respectsDeployedState op" by blast
    then show "case op of Insert v \<Rightarrow> row_deployedState v = Null
               | Update u i \<Rightarrow> ud_deployedState u = None"
      by (cases op) simp_all
  qed
  with r show ?thesis
    by (simp add: execOperations_deployedState execOperations_added)
qed

theorem POST_preserves_deployedState_witness:
  "row_deployedState
     (execOperations (issuedOperations (rr_events (POST sampleExternals sampleDb sampleClock [] memberRequest)))
        (workflowTable sampleDb) ! 0) = Def (JObj [(''blocks'', JObj [])]) \<and>
   row_deployedState
     (execOperations (issuedOperations (rr_events (POST sampleExternals sampleDb sampleClock [] memberRequest)))
        (workflowTable sampleDb) ! 1) = Null \<and>
   ud_deployedState sampleUpdate = None"
proof -
  have l: "length (execOperations [Update sampleUpdate ''a'', Insert (sampleInsert ''m'')] [sampleRow]) = 2"
    by (simp add: execOperations_def)
  have d: "row_deployedState sampleRow = Def (JObj [(''blocks'', JObj [])])"
    by (simp add: sampleRow_def)
  from POST_preserves_deployedState [of sampleExternals sampleDb sampleClock "[]" memberRequest]
  show ?thesis
    by (simp add: memberRequest_issued sampleDb_table l d)
qed

section \<open>The dual write\<close>

text \<open>
  C3. In a successful POST sync (status 200), for every client workflow of the payload
  the route calls \<open>saveWorkflowToNormalizedTables\<close> with the key and the graph of the
  workflow (blocks, edges, loops, parallels, \<open>isDeployed\<close>, \<open>deployedAt\<close>), and all these
  calls come before the operations are issued. For every client workflow there is one
  state \<open>s\<close> of the dual write: the blob that the normalized save of the workflow
  returned when the save succeeded (with a blob), and the state the client provided
  otherwise. For a
  workflow whose key finds no row among the selected rows, an insert with the id of the
  workflow is issued, and it writes \<open>s\<close> to the state column. For a workflow whose key
  finds a row that the user may update and whose state does not serialize as \<open>s\<close> does,
  an update for the key is issued, and it assigns \<open>s\<close> to the state column. And every
  issued operation is the insert or the update of a workflow of the payload, and the
  state it writes, if it writes one, is the \<open>s\<close> of that workflow.
\<close>

theorem POST_dual_write:
  fixes req :: sync_request and payload :: sync_payload and db :: database
    and clock :: sync_clock and cache :: membership_cache and ext :: externals
  defines "userId \<equiv> stringOf (rq_session req)"
  defines "workspaceId \<equiv> sp_workspaceId payload"
  defines "dbWorkflows \<equiv> selectWorkflows db (stringOf (rq_session req)) (sp_workspaceId payload)"
  defines "issued \<equiv> issuedOperations (rr_events (POST ext db clock cache req))"
  assumes ok: "res_status (rr_response (POST ext db clock cache req)) = 200"
    and body: "rq_body req = Some body"
    and parse: "parseSyncPayload (newDate ext) body = Inr payload"
  shows "(\<forall>entry \<in> set (sp_workflows payload).
            SavedNormalized (fst entry) (normalizedArgs (migrateLegacyPublished (snd entry)))
              \<in> set (rr_events (POST ext db clock cache req)) \<and>
            ns_blocks (normalizedArgs (migrateLegacyPublished (snd entry))) = ws_blocks (cw_state (snd entry)) \<and>
            ns_edges (normalizedArgs (migrateLegacyPublished (snd entry))) = ws_edges (cw_state (snd entry)) \<and>
            ns_loops (normalizedArgs (migrateLegacyPublished (snd entry))) = ws_loops (cw_state (snd entry)) \<and>
            ns_parallels (normalizedArgs (migrateLegacyPublished (snd entry))) = ws_parallels (cw_state (snd entry)) \<and>
            ns_isDeployed (normalizedArgs (migrateLegacyPublished (snd entry))) = ws_isDeployed (cw_state (snd entry)) \<and>
            ns_deployedAt (normalizedArgs (migrateLegacyPublished (snd entry))) = ws_deployedAt (cw_state (snd entry))) \<and>
         (\<exists>before. rr_events (POST ext db clock cache req) = before @ map Issued issued \<and>
              issuedOperations before = []) \<and>
         (\<forall>entry \<in> set (sp_workflows payload).
            \<exists>s. dualWriteState ext (fst entry) (snd entry) s \<and>
              (\<forall>t. dualWriteState ext (fst entry) (snd entry) t \<longrightarrow> t = s) \<and>
              (dbWorkflowMapGet dbWorkflows (fst entry) = None \<longrightarrow>
                 (\<exists>v. Insert v \<in> set issued \<and> row_id v = cw_id (snd entry) \<and> row_state v = s)) \<and>
              (\<forall>dbWorkflow.
                 dbWorkflowMapGet dbWorkflows (fst entry) = Some dbWorkflow \<and>
                 canUpdate dbWorkflow userId workspaceId (syncUserRole db clock cache userId payload) \<and>
                 stringifyState ext (row_state dbWorkflow) \<noteq> stringifyState ext s \<longrightarrow>
                 (\<exists>u. Update u (fst entry) \<in> set issued \<and> ud_state u = Some s))) \<and>
         (\<forall>op \<in> set issued.
            \<exists>entry \<in> set (sp_workflows payload).
              ((\<exists>v. op = Insert v \<and> row_id v = cw_id (snd entry)) \<or> (\<exists>u. op = Update u (fst entry))) \<and>
              (case writtenState op of
                 None \<Rightarrow> True
               | Some s \<Rightarrow> dualWriteState ext (fst entry) (snd entry) s))"
proof -
  let ?u = "stringOf (rq_session req)"
  let ?role = "syncUserRole db clock cache ?u payload"
  let ?results = "processClientWorkflows ext db clock ?u payload ?role"
  let ?process = "processClientWorkflow ext ?u (sp_workspaceId payload) ?role (Date (syncNow clock))
            (selectWorkflows db ?u (sp_workspaceId payload))"
  from POST_ok_events [OF ok body parse] obtain pre where
    pre: "\<forall>e \<in> set pre. \<exists>q. e = Selected q" and
    ev: "rr_events (POST ext db clock cache req) =
           pre @ savedEvents ?results @ map Issued (pushedOperations ?results)"
    by blast
  have issued: "issued = pushedOperations ?results"
    unfolding issued_def using ok body parse by (rule POST_ok_issued)
  have ipre: "issuedOperations pre = []"
    using pre by (induction pre rule: issuedOperations.induct) auto
  have A: "\<forall>entry \<in> set (sp_workflows payload).
            SavedNormalized (fst entry) (normalizedArgs (migrateLegacyPublished (snd entry)))
              \<in> set (rr_events (POST ext db clock cache req)) \<and>
            ns_blocks (normalizedArgs (migrateLegacyPublished (snd entry))) = ws_blocks (cw_state (snd entry)) \<and>
            ns_edges (normalizedArgs (migrateLegacyPublished (snd entry))) = ws_edges (cw_state (snd entry)) \<and>
            ns_loops (normalizedArgs (migrateLegacyPublished (snd entry))) = ws_loops (cw_state (snd entry)) \<and>
            ns_parallels (normalizedArgs (migrateLegacyPublished (snd entry))) = ws_parallels (cw_state (snd entry)) \<and>
            ns_isDeployed (normalizedArgs (migrateLegacyPublished (snd entry))) = ws_isDeployed (cw_state (snd entry)) \<and>
            ns_deployedAt (normalizedArgs (migrateLegacyPublished (snd entry))) = ws_deployedAt (cw_state (snd entry))"
  proof
    fix entry assume e: "entry \<in> set (sp_workflows payload)"
    obtain i cw where entry: "entry = (i, cw)" by (cases entry)
    from e entry have "SavedNormalized i (normalizedArgs (migrateLegacyPublished cw)) \<in> set (savedEvents ?results)"
      by (force simp: savedEvents_def processClientWorkflows_nth processClientWorkflow_saveCall
          image_iff)
    then show "SavedNormalized (fst entry) (normalizedArgs (migrateLegacyPublished (snd entry)))
              \<in> set (rr_events (POST ext db clock cache req)) \<and>
            ns_blocks (normalizedArgs (migrateLegacyPublished (snd entry))) = ws_blocks (cw_state (snd entry)) \<and>
            ns_edges (normalizedArgs (migrateLegacyPublished (snd entry))) = ws_edges (cw_state (snd entry)) \<and>
            ns_loops (normalizedArgs (migrateLegacyPublished (snd entry))) = ws_loops (cw_state (snd entry)) \<and>
            ns_parallels (normalizedArgs (migrateLegacyPublished (snd entry))) = ws_parallels (cw_state (snd entry)) \<and>
            ns_isDeployed (normalizedArgs (migrateLegacyPublished (snd entry))) = ws_isDeployed (cw_state (snd entry)) \<and>
            ns_deployedAt (normalizedArgs (migrateLegacyPublished (snd entry))) = ws_deployedAt (cw_state (snd entry))"
      by (simp add: ev entry normalizedArgs_def migrateLegacyPublished_def)
  qed
  have B: "\<exists>before. rr_events (POST ext db clock cache req) = before @ map Issued issued \<and>
              issuedOperations before = []"
    by (rule exI [of _ "pre @ savedEvents ?results"])
       (simp add: issued ev issuedOperations_append ipre savedEvents_def)
  have W: "\<forall>entry \<in> set (sp_workflows payload).
            \<exists>s. dualWriteState ext (fst entry) (snd entry) s \<and>
              (\<forall>t. dualWriteState ext (fst entry) (snd entry) t \<longrightarrow> t = s) \<and>
              (dbWorkflowMapGet dbWorkflows (fst entry) = None \<longrightarrow>
                 (\<exists>v. Insert v \<in> set issued \<and> row_id v = cw_id (snd entry) \<and> row_state v = s)) \<and>
              (\<forall>dbWorkflow.
                 dbWorkflowMapGet dbWorkflows (fst entry) = Some dbWorkflow \<and>
                 canUpdate dbWorkflow userId workspaceId (syncUserRole db clock cache userId payload) \<and>
                 stringifyState ext (row_state dbWorkflow) \<noteq> stringifyState ext s \<longrightarrow>
                 (\<exists>u. Update u (fst entry) \<in> set issued \<and> ud_state u = Some s))"
  proof
    fix entry assume e: "entry \<in> set (sp_workflows payload)"
    obtain i cw where entry: "entry = (i, cw)" by (cases entry)
    from e entry have r: "?process (i, cw) \<in> set ?results"
      by (simp add: processClientWorkflows_nth)
    have 1: "dualWriteState ext i cw (chosenState ext i cw)"
      by (rule dualWriteState_chosen)
    have 2: "\<forall>t. dualWriteState ext i cw t \<longrightarrow> t = chosenState ext i cw"
      by (simp add: dualWriteState_unique)
    have 3: "dbWorkflowMapGet dbWorkflows i = None \<longrightarrow>
        (\<exists>v. Insert v \<in> set issued \<and> row_id v = cw_id cw \<and> row_state v = chosenState ext i cw)"
    proof
      assume "dbWorkflowMapGet dbWorkflows i = None"
      then obtain v where "pushed (?process (i, cw)) = Some (Insert v)"
        "row_id v = cw_id cw" "row_state v = chosenState ext i cw"
        unfolding dbWorkflows_def using processClientWorkflow_inserts by blast
      with r show "\<exists>v. Insert v \<in> set issued \<and> row_id v = cw_id cw \<and> row_state v = chosenState ext i cw"
        unfolding issued pushedOperations_iff by blast
    qed
    have 4: "\<forall>dbWorkflow.
        dbWorkflowMapGet dbWorkflows i = Some dbWorkflow \<and>
        canUpdate dbWorkflow userId workspaceId (syncUserRole db clock cache userId payload) \<and>
        stringifyState ext (row_state dbWorkflow) \<noteq> stringifyState ext (chosenState ext i cw) \<longrightarrow>
        (\<exists>u. Update u i \<in> set issued \<and> ud_state u = Some (chosenState ext i cw))"
    proof (intro allI impI, elim conjE)
      fix dbWorkflow
      assume "dbWorkflowMapGet dbWorkflows i = Some dbWorkflow"
        "canUpdate dbWorkflow userId workspaceId (syncUserRole db clock cache userId payload)"
        "stringifyState ext (row_state dbWorkflow) \<noteq> stringifyState ext (chosenState ext i cw)"
      then obtain u where "pushed (?process (i, cw)) = Some (Update u i)"
        "ud_state u = Some (chosenState ext i cw)"
        unfolding dbWorkflows_def userId_def workspaceId_def
        using processClientWorkflow_updates_state by blast
      with r show "\<exists>u. Update u i \<in> set issued \<and> ud_state u = Some (chosenState ext i cw)"
        unfolding issued pushedOperations_iff by blast
    qed
    from 1 2 3 4 show "\<exists>s. dualWriteState ext (fst entry) (snd entry) s \<and>
              (\<forall>t. dualWriteState ext (fst entry) (snd entry) t \<longrightarrow> t = s) \<and>
              (dbWorkflowMapGet dbWorkflows (fst entry) = None \<longrightarrow>
                 (\<exists>v. Insert v \<in> set issued \<and> row_id v = cw_id (snd entry) \<and> row_state v = s)) \<and>
              (\<forall>dbWorkflow.
                 dbWorkflowMapGet dbWorkflows (fst entry) = Some dbWorkflow \<and>
                 canUpdate dbWorkflow userId workspaceId (syncUserRole db clock cache userId payload) \<and>
                 stringifyState ext (row_state dbWorkflow) \<noteq> stringifyState ext s \<longrightarrow>
                 (\<exists>u. Update u (fst entry) \<in> set issued \<and> ud_state u = Some s))"
      unfolding entry fst_conv snd_conv
      by (intro exI [of _ "chosenState ext i cw"] conjI)
  qed
  have C: "\<forall>op \<in> set issued.
            \<exists>entry \<in> set (sp_workflows payload).
              ((\<exists>v. op = Insert v \<and> row_id v = cw_id (snd entry)) \<or> (\<exists>u. op = Update u (fst entry))) \<and>
              (case writtenState op of
                 None \<Rightarrow> True
               | Some s \<Rightarrow> dualWriteState ext (fst entry) (snd entry) s)"
  proof
    fix op assume "op \<in> set issued"
    then obtain entry where e: "entry \<in> set (sp_workflows payload)" and
      p: "pushed (?process entry) = Some op"
      by (auto simp: issued pushedOperations_iff processClientWorkflows_nth)
    obtain i cw where entry: "entry = (i, cw)" by (cases entry)
    from p have k: "(\<exists>v. op = Insert v \<and> row_id v = cw_id cw) \<or> (\<exists>u. op = Update u i)"
      unfolding entry
      by (auto simp: processClientWorkflow_pushed insertValues_def migrateLegacyPublished_def
          split: option.splits if_splits)
    from processClientWorkflow_state [OF p [unfolded entry]]
    have "case writtenState op of None \<Rightarrow> True | Some s \<Rightarrow> dualWriteState ext i cw s"
      by (auto simp: dualWriteState_chosen)
    with k e entry show "\<exists>entry \<in> set (sp_workflows payload).
              ((\<exists>v. op = Insert v \<and> row_id v = cw_id (snd entry)) \<or> (\<exists>u. op = Update u (fst entry))) \<and>
              (case writtenState op of
                 None \<Rightarrow> True
               | Some s \<Rightarrow> dualWriteState ext (fst entry) (snd entry) s)"
      by (intro bexI [of _ entry]) (auto split: option.splits)
  qed
  from A B W C show ?thesis by blast
qed

theorem POST_dual_write_witness:
  "SavedNormalized ''b'' (normalizedArgs (sampleWorkflow ''b'' ''B'' ''b2''))
     \<in> set (rr_events (POST sampleExternals sampleDb sampleClock [] memberRequest)) \<and>
   (\<exists>v. Insert v \<in> set (issuedOperations (rr_events (POST sampleExternals sampleDb sampleClock [] memberRequest))) \<and>
        row_id v = ''b'' \<and>
        row_state v = JsonBlob (JObj [(''blocks'', JObj [(''b2'', JObj [])]), (''edges'', JArr []),
                                      (''loops'', JObj []), (''parallels'', JObj [])])) \<and>
   (\<exists>u. Update u ''a'' \<in> set (issuedOperations (rr_events (POST sampleExternals sampleDb sampleClock [] changedRequest))) \<and>
        ud_state u = Some (JsonBlob (JObj [(''blocks'', JObj [(''b9'', JObj [])]), (''edges'', JArr []),
                                           (''loops'', JObj []), (''parallels'', JObj [])])))"
proof -
  have m: "migrateLegacyPublished (sampleWorkflow ''b'' ''B'' ''b2'') = sampleWorkflow ''b'' ''B'' ''b2''"
    by (simp add: migrateLegacyPublished_def sampleWorkflow_def)
  have can: "canUpdate sampleRow ''m'' (Def ''w'') (Def ''member'')"
    by (simp add: canUpdate_def)
  have differs: "stringifyState sampleExternals (row_state sampleRow) \<noteq>
      stringifyState sampleExternals (JsonBlob (JObj [(''blocks'', JObj [(''b9'', JObj [])]), (''edges'', JArr []),
                                           (''loops'', JObj []), (''parallels'', JObj [])]))"
    by (simp add: sampleExternals_def sampleRow_def sampleStringifyState_def blockNames_def)
  note member = POST_dual_write [OF memberRequest_issued(1) memberRequest_fields(2) parse_syncBody]
  note changed = POST_dual_write [OF changedRequest_issued(1) changedRequest_fields(2) parse_changedSyncBody]
  have 1: "SavedNormalized ''b'' (normalizedArgs (sampleWorkflow ''b'' ''B'' ''b2''))
     \<in> set (rr_events (POST sampleExternals sampleDb sampleClock [] memberRequest))"
    using member by (simp add: samplePayload_def m)
  have 2: "\<exists>v. Insert v \<in> set (issuedOperations (rr_events (POST sampleExternals sampleDb sampleClock [] memberRequest))) \<and>
        row_id v = ''b'' \<and>
        row_state v = JsonBlob (JObj [(''blocks'', JObj [(''b2'', JObj [])]), (''edges'', JArr []),
                                      (''loops'', JObj []), (''parallels'', JObj [])])"
    using member
    by (simp add: samplePayload_def sample_dualWriteState sample_select sample_lookup
        memberRequest_fields) (simp add: sampleWorkflow_def)
  have 3: "\<exists>u. Update u ''a'' \<in> set (issuedOperations (rr_events (POST sampleExternals sampleDb sampleClock [] changedRequest))) \<and>
        ud_state u = Some (JsonBlob (JObj [(''blocks'', JObj [(''b9'', JObj [])]), (''edges'', JArr []),
                                           (''loops'', JObj []), (''parallels'', JObj [])]))"
    using changed can differs
    by (simp add: changedPayload_def sample_dualWriteState sample_select sample_lookup
        changedRequest_fields sample_role_more [unfolded changedPayload_def])
  from 1 2 3 show ?thesis by blast
qed

section \<open>Diff before write\<close>

text \<open>
  C5, as stated, fails: before it compares, the route gives a client workflow whose
  state has \<open>isPublished\<close> and which has no \<open>marketplaceData\<close> the marketplace data of an
  owner. The member \<open>m\<close> sends workflow \<open>a\<close> as the table has it, published and with
  \<open>marketplaceData\<close> null, as the row has: the sync succeeds, the key finds the row, the
  member may update it, no compared field differs between the row and the client
  workflow, and yet the route issues an update of \<open>a\<close>, which assigns the marketplace
  data of an owner.
\<close>

theorem POST_legacy_published_counterexample:
  "parseSyncPayload (newDate sampleExternals) publishedSyncBody = Inr publishedPayload \<and>
   sp_workflows publishedPayload = [(''a'', publishedWorkflow)] \<and>
   res_status (rr_response (POST sampleExternals sampleDb sampleClock [] publishedRequest)) = 200 \<and>
   dbWorkflowMapGet (selectWorkflows sampleDb ''m'' (sp_workspaceId publishedPayload)) ''a'' = Some sampleRow \<and>
   canUpdate sampleRow ''m'' (sp_workspaceId publishedPayload)
     (syncUserRole sampleDb sampleClock [] ''m'' publishedPayload) \<and>
   \<not> comparedFieldsDiffer sampleExternals sampleRow publishedWorkflow
       (effectiveWorkspaceId publishedWorkflow (sp_workspaceId publishedPayload))
       (chosenState sampleExternals ''a'' publishedWorkflow) \<and>
   issuedOperations (rr_events (POST sampleExternals sampleDb sampleClock [] publishedRequest)) =
     [Update publishedUpdate ''a'']"
proof -
  have ws: "sp_workspaceId publishedPayload = Def ''w''" "sp_workflows publishedPayload = [(''a'', publishedWorkflow)]"
    by (simp_all add: publishedPayload_def)
  have can: "canUpdate sampleRow ''m'' (Def ''w'') (Def ''member'')"
    by (simp add: canUpdate_def)
  have same: "comparedFieldsDiffer sampleExternals sampleRow publishedWorkflow
     (effectiveWorkspaceId publishedWorkflow (Def ''w''))
     (chosenState sampleExternals ''a'' publishedWorkflow) = False"
    by (simp add: comparedFieldsDiffer_def sampleRow_def publishedWorkflow_def chosenState_def
      stateToSave_def sampleExternals_def sampleSave_def normalizedArgs_def migrateLegacyPublished_def
      sampleStringifyState_def blockNames_def strictNeqNumber_def effectiveWorkspaceId_def stringOr_def)
  show ?thesis
    by (simp add: parse_publishedSyncBody publishedRequest_issued ws sample_select sample_lookup
        sample_role_more can same)
qed

text \<open>
  C5, amended. In a successful POST sync, for a workflow of the payload (the keys of the
  payload are distinct, as the properties of an object are) whose key finds a row among
  the selected rows, and which the user may update: an update for the key is issued if
  and only if some compared field differs between the row and the client workflow after
  the legacy migration (a workflow whose state has \<open>isPublished\<close> and which has no
  \<open>marketplaceData\<close> has got the \<open>marketplaceData\<close> of an owner, with its id); and when
  none differs, the rows with that id are, after the operations have run, what they
  were.
\<close>

theorem POST_diff_before_write:
  fixes req :: sync_request and payload :: sync_payload
  defines "userId \<equiv> stringOf (rq_session req)"
  defines "workspaceId \<equiv> sp_workspaceId payload"
  assumes ok: "res_status (rr_response (POST ext db clock cache req)) = 200"
    and body: "rq_body req = Some body"
    and parse: "parseSyncPayload (newDate ext) body = Inr payload"
    and keys: "distinct (map fst (sp_workflows payload))"
    and entry: "(i, cw) \<in> set (sp_workflows payload)"
    and row: "dbWorkflowMapGet (selectWorkflows db userId workspaceId) i = Some dbWorkflow"
    and may: "canUpdate dbWorkflow userId workspaceId (syncUserRole db clock cache userId payload)"
  shows "((\<exists>u. Update u i \<in> set (issuedOperations (rr_events (POST ext db clock cache req)))) \<longleftrightarrow>
          comparedFieldsDiffer ext dbWorkflow (migrateLegacyPublished cw)
            (effectiveWorkspaceId (migrateLegacyPublished cw) workspaceId) (chosenState ext i cw)) \<and>
         (\<not> comparedFieldsDiffer ext dbWorkflow (migrateLegacyPublished cw)
              (effectiveWorkspaceId (migrateLegacyPublished cw) workspaceId) (chosenState ext i cw) \<longrightarrow>
          (\<forall>n < length (workflowTable db). row_id (workflowTable db ! n) = i \<longrightarrow>
             execOperations (issuedOperations (rr_events (POST ext db clock cache req)))
               (workflowTable db) ! n = workflowTable db ! n))"
proof -
  have issued: "issuedOperations (rr_events (POST ext db clock cache req)) =
      pushedOperations (processClientWorkflows ext db clock userId payload
        (syncUserRole db clock cache userId payload))"
    unfolding userId_def using ok body parse by (rule POST_ok_issued)
  have iff: "(\<exists>u. Update u i \<in> set (issuedOperations (rr_events (POST ext db clock cache req)))) \<longleftrightarrow>
          comparedFieldsDiffer ext dbWorkflow (migrateLegacyPublished cw)
            (effectiveWorkspaceId (migrateLegacyPublished cw) workspaceId) (chosenState ext i cw)"
    unfolding issued update_issued_iff [OF keys entry]
    using row may
    by (simp add: processClientWorkflow_pushed workspaceId_def diffWorkflow_needsUpdate)
  show ?thesis
  proof (intro conjI impI allI)
    show "(\<exists>u. Update u i \<in> set (issuedOperations (rr_events (POST ext db clock cache req)))) \<longleftrightarrow>
          comparedFieldsDiffer ext dbWorkflow (migrateLegacyPublished cw)
            (effectiveWorkspaceId (migrateLegacyPublished cw) workspaceId) (chosenState ext i cw)"
      by (rule iff)
  next
    fix n
    assume "\<not> comparedFieldsDiffer ext dbWorkflow (migrateLegacyPublished cw)
              (effectiveWorkspaceId (migrateLegacyPublished cw) workspaceId) (chosenState ext i cw)"
      "n < length (workflowTable db)" "row_id (workflowTable db ! n) = i"
    with iff show "execOperations (issuedOperations (rr_events (POST ext db clock cache req)))
               (workflowTable db) ! n = workflowTable db ! n"
      by (intro execOperations_untouched) auto
  qed
qed

theorem POST_diff_before_write_witness:
  "(\<exists>u. Update u ''a'' \<in> set (issuedOperations
       (rr_events (POST sampleExternals sampleDb sampleClock [] memberRequest)))) \<and>
   execOperations (issuedOperations
       (rr_events (POST sampleExternals sampleDb sampleClock [] unchangedRequest)))
     (workflowTable sampleDb) ! 0 = sampleRow"
proof -
  have m: "migrateLegacyPublished (sampleWorkflow ''a'' n ''b1'') = sampleWorkflow ''a'' n ''b1''" for n
    by (simp add: migrateLegacyPublished_def sampleWorkflow_def)
  have eff: "effectiveWorkspaceId (sampleWorkflow ''a'' n ''b1'') (Def ''w'') = Def ''w''" for n
    by (simp add: effectiveWorkspaceId_def stringOr_def sampleWorkflow_def)
  have can: "canUpdate sampleRow ''m'' (Def ''w'') (Def ''member'')"
    by (simp add: canUpdate_def)
  have 1: "\<exists>u. Update u ''a'' \<in> set (issuedOperations
       (rr_events (POST sampleExternals sampleDb sampleClock [] memberRequest)))"
    using POST_diff_before_write [OF memberRequest_issued(1) memberRequest_fields(2) parse_syncBody,
        of "''a''" "sampleWorkflow ''a'' ''A renamed'' ''b1''" sampleRow]
    by (simp add: memberRequest_fields samplePayload_def sample_select sample_lookup
        sample_role_member [unfolded samplePayload_def] can m eff sampleRow_differs)
  have 2: "execOperations (issuedOperations
       (rr_events (POST sampleExternals sampleDb sampleClock [] unchangedRequest)))
     (workflowTable sampleDb) ! 0 = workflowTable sampleDb ! 0"
    using POST_diff_before_write [OF unchangedRequest_issued(1) unchangedRequest_fields(2) parse_unchangedSyncBody,
        of "''a''" "sampleWorkflow ''a'' ''A'' ''b1''" sampleRow]
    by (simp add: unchangedRequest_fields unchangedPayload_def sample_select sample_lookup
        sample_role_member [unfolded unchangedPayload_def] can m eff sampleRow_same)
       (simp add: sampleDb_def sampleRow_def)
  from 1 2 show ?thesis by (simp add: sampleDb_def)
qed

section \<open>The silent permission skip\<close>

text \<open>
  C10, as stated, fails: a user who holds no role in the workspace at all is turned away
  by the validation of the workspace, before the loop over the workflows. The user \<open>u\<close>
  is no member of the workspace \<open>w\<close>; the payload holds the existing workflow \<open>a\<close>, which
  \<open>u\<close> does not own and may not update; no call on the database rejects; and the route
  responds 403, not 200.
\<close>

theorem POST_non_member_denied_counterexample:
  "parseSyncPayload (newDate sampleExternals) syncBody = Inr samplePayload \<and>
   (''a'', sampleWorkflow ''a'' ''A renamed'' ''b1'') \<in> set (sp_workflows samplePayload) \<and>
   dbWorkflowMapGet (selectWorkflows sampleDb ''u'' (sp_workspaceId samplePayload)) ''a'' = Some sampleRow \<and>
   row_userId sampleRow \<noteq> ''u'' \<and>
   syncUserRole sampleDb sampleClock [] ''u'' samplePayload = Null \<and>
   \<not> canUpdate sampleRow ''u'' (sp_workspaceId samplePayload)
       (syncUserRole sampleDb sampleClock [] ''u'' samplePayload) \<and>
   rejecting sampleDb = noRejection \<and>
   rr_response (POST sampleExternals sampleDb sampleClock [] nonMemberRequest) =
     \<lparr>res_status = 403,
      res_body = ErrorCodeBody ''Access denied to this workspace'' ''WORKSPACE_ACCESS_DENIED''\<rparr>"
proof -
  have ws: "sp_workspaceId samplePayload = Def ''w''"
    "(''a'', sampleWorkflow ''a'' ''A renamed'' ''b1'') \<in> set (sp_workflows samplePayload)"
    by (simp_all add: samplePayload_def)
  have owner: "row_userId sampleRow \<noteq> ''u''" "rejecting sampleDb = noRejection"
    by (simp_all add: sampleRow_def sampleDb_def)
  have can: "canUpdate sampleRow ''u'' (Def ''w'') Null = False"
    by (simp add: canUpdate_def sampleRow_def)
  have r: "rr_response (POST sampleExternals sampleDb sampleClock [] nonMemberRequest) =
     \<lparr>res_status = 403,
      res_body = ErrorCodeBody ''Access denied to this workspace'' ''WORKSPACE_ACCESS_DENIED''\<rparr>"
    by (simp add: nonMemberRequest_def POST_def parse_syncBody)
       (simp add: route_defs sample_defs Let_def)
  show ?thesis
    by (simp add: parse_syncBody ws sample_select sample_lookup sample_role_more owner can r)
qed

text \<open>
  C10, amended. A POST of a user who holds a role in the given, existing workspace (the
  validation of the workspace lets the request pass), whose payload (its keys distinct,
  as the properties of an object are) holds a workflow whose key finds a row among the
  selected rows that the user does not own, the user's role being none of owner, admin
  and member: when no call on the database rejects, the
  route responds 200 with the success body, which holds only the statistics; the
  operations it issues are those of the remaining workflows of the payload; no update
  for the key is among them, and the rows with that id are, after the operations have
  run, what they were.
\<close>

theorem POST_permission_skip:
  fixes req :: sync_request and payload :: sync_payload and db :: database
    and clock :: sync_clock and cache :: membership_cache and ext :: externals
  defines "userId \<equiv> stringOf (rq_session req)"
  defines "workspaceId \<equiv> sp_workspaceId payload"
  defines "userRole \<equiv> syncUserRole db clock cache (stringOf (rq_session req)) payload"
  defines "issued \<equiv> issuedOperations (rr_events (POST ext db clock cache req))"
  assumes session: "truthyString (rq_session req)"
    and body: "rq_body req = Some body"
    and parse: "parseSyncPayload (newDate ext) body = Inr payload"
    and resolves: "rejecting db = noRejection"
    and workspace: "stringOf workspaceId \<in> set (workspaceTable db)"
    and member: "truthyString userRole"
    and keys: "distinct (map fst (sp_workflows payload))"
    and entry: "(i, cw) \<in> set (sp_workflows payload)"
    and row: "dbWorkflowMapGet (selectWorkflows db userId workspaceId) i = Some dbWorkflow"
    and notOwner: "row_userId dbWorkflow \<noteq> userId"
    and noRole: "userRole \<noteq> Def ''owner''" "userRole \<noteq> Def ''admin''" "userRole \<noteq> Def ''member''"
  shows "rr_response (POST ext db clock cache req) =
           \<lparr>res_status = 200,
            res_body = SuccessBody (endTime clock - startTime clock) (length issued)
                         (length (sp_workflows payload))\<rparr> \<and>
         issued = pushedOperations (processClientWorkflows ext db clock userId
                    (payload\<lparr>sp_workflows := filter (\<lambda>e. fst e \<noteq> i) (sp_workflows payload)\<rparr>) userRole) \<and>
         (\<forall>u. Update u i \<notin> set issued) \<and>
         (\<forall>n < length (workflowTable db). row_id (workflowTable db ! n) = i \<longrightarrow>
            execOperations issued (workflowTable db) ! n = workflowTable db ! n)"
proof -
  let ?results = "processClientWorkflows ext db clock userId payload userRole"
  from entry have ne: "sp_workflows payload \<noteq> []" by auto
  from authorized_sync [OF session body parse ne resolves workspace [unfolded workspaceId_def]
      member [unfolded userRole_def]]
  obtain c ev where ev: "issuedOperations ev = []" and
    post: "POST ext db clock cache req =
      respond 200
        (SuccessBody (endTime clock - startTime clock) (length (pushedOperations ?results))
          (length (sp_workflows payload)))
        c (ev @ map Issued (pushedOperations ?results))"
    unfolding userId_def userRole_def by blast
  have issued: "issued = pushedOperations ?results"
    by (simp add: issued_def post respond_def issuedOperations_append ev)
  have denied: "\<not> canUpdate dbWorkflow userId workspaceId userRole"
    using notOwner noRole by (simp add: canUpdate_def)
  have none: "pushed (processClientWorkflow ext userId workspaceId userRole (Date (syncNow clock))
                (selectWorkflows db userId workspaceId) (i, cw)) = None"
    using row denied by (simp add: processClientWorkflow_pushed)
  have skip: "\<forall>x \<in> set (sp_workflows payload). \<not> fst x \<noteq> i \<longrightarrow>
      pushed (processClientWorkflow ext userId workspaceId userRole (Date (syncNow clock))
                (selectWorkflows db userId workspaceId) x) = None"
  proof (intro ballI impI)
    fix x assume x: "x \<in> set (sp_workflows payload)" "\<not> fst x \<noteq> i"
    then have "(i, snd x) \<in> set (sp_workflows payload)" by (cases x) auto
    with keys entry have "snd x = cw" by (rule distinct_keys_unique)
    with x have "x = (i, cw)" by (cases x) auto
    with none show "pushed (processClientWorkflow ext userId workspaceId userRole (Date (syncNow clock))
                (selectWorkflows db userId workspaceId) x) = None"
      by simp
  qed
  have rest: "pushedOperations ?results =
      pushedOperations (processClientWorkflows ext db clock userId
        (payload\<lparr>sp_workflows := filter (\<lambda>e. fst e \<noteq> i) (sp_workflows payload)\<rparr>) userRole)"
    using pushedOperations_skip [OF skip]
    by (simp add: processClientWorkflows_def workspaceId_def)
  have noUpdate: "\<forall>u. Update u i \<notin> set issued"
    using update_issued_iff [OF keys entry, of ext db clock userId userRole] none
    by (simp add: issued workspaceId_def)
  have untouched: "\<forall>n < length (workflowTable db). row_id (workflowTable db ! n) = i \<longrightarrow>
            execOperations issued (workflowTable db) ! n = workflowTable db ! n"
    using noUpdate by (auto intro: execOperations_untouched)
  have resp: "rr_response (POST ext db clock cache req) =
           \<lparr>res_status = 200,
            res_body = SuccessBody (endTime clock - startTime clock) (length issued)
                         (length (sp_workflows payload))\<rparr>"
    by (simp add: post respond_def issued)
  from resp issued rest noUpdate untouched show ?thesis by simp
qed

theorem POST_permission_skip_witness:
  "rr_response (POST sampleExternals sampleDb sampleClock [] viewerRequest) =
     \<lparr>res_status = 200, res_body = SuccessBody 10 1 2\<rparr> \<and>
   issuedOperations (rr_events (POST sampleExternals sampleDb sampleClock [] viewerRequest)) =
     [Insert (sampleInsert ''v'')] \<and>
   execOperations (issuedOperations (rr_events (POST sampleExternals sampleDb sampleClock [] viewerRequest)))
     (workflowTable sampleDb) ! 0 = sampleRow"
proof -
  have r: "rejecting sampleDb = noRejection" "''w'' \<in> set (workspaceTable sampleDb)"
    by (simp_all add: sampleDb_def)
  have k: "distinct (map fst (sp_workflows samplePayload))"
    "(''a'', sampleWorkflow ''a'' ''A renamed'' ''b1'') \<in> set (sp_workflows samplePayload)"
    "sp_workspaceId samplePayload = Def ''w''" "length (sp_workflows samplePayload) = 2"
    by (simp_all add: samplePayload_def)
  have o: "row_userId sampleRow \<noteq> ''v''" "row_id sampleRow = ''a''"
    by (simp_all add: sampleRow_def)
  have t: "endTime sampleClock - startTime sampleClock = 10"
    by (simp add: sampleClock_def)
  from POST_permission_skip [OF viewerRequest_fields(1,2) parse_syncBody r(1), of sampleClock "[]" "''a''"
      "sampleWorkflow ''a'' ''A renamed'' ''b1''" sampleRow]
  have "rr_response (POST sampleExternals sampleDb sampleClock [] viewerRequest) =
     \<lparr>res_status = 200, res_body = SuccessBody 10 1 2\<rparr>"
    by (simp add: viewerRequest_fields k r o sample_role_viewer sample_select sample_lookup
        viewerRequest_issued t)
  then show ?thesis
    by (simp add: viewerRequest_issued sampleDb_table execOperations_def)
qed

section \<open>The switch of the workspace\<close>

text \<open>
  C8. A call of \<open>setActiveWorkspace(id)\<close> with an id that differs from the active
  workspace, while no transition is in progress, leaves, when it calls
  \<open>fetchWorkflowsFromDB\<close> (its last call): a workflow store with no blocks, no edges, no
  loops, \<open>isDeployed\<close> false, no deployment statuses and a history of the one initial
  entry; a subblock store with empty \<open>workflowValues\<close> and \<open>toolParams\<close>; a registry with
  no workflows, no active workflow and the active workspace \<open>id\<close>. With the id of the
  active workspace, or during a transition, the call changes nothing.
\<close>

theorem setActiveWorkspace_resets:
  "(Def workspaceId \<noteq> reg_activeWorkspaceId (registry s) \<and> \<not> isWorkspaceTransitioning s \<longrightarrow>
      (let s' = setActiveWorkspace clock workspaceId s in
       wf_blocks (workflowStore s') = [] \<and>
       wf_edges (workflowStore s') = [] \<and>
       wf_loops (workflowStore s') = [] \<and>
       wf_isDeployed (workflowStore s') = False \<and>
       wf_deploymentStatuses (workflowStore s') = Map.empty \<and>
       wf_history (workflowStore s') =
         \<lparr>past = [],
          present =
            \<lparr>he_state = \<lparr>hs_blocks = [], hs_edges = [], hs_loops = [], hs_parallels = [],
                          hs_isDeployed = False, hs_deployedAt = Undefined\<rparr>,
             he_timestamp = timestampNow clock,
             he_action = ''Initial state'',
             he_subblockValues = []\<rparr>,
          future = []\<rparr> \<and>
       workflowValues (subBlockStore s') = [] \<and>
       toolParams (subBlockStore s') = [] \<and>
       reg_workflows (registry s') = [] \<and>
       reg_activeWorkflowId (registry s') = Null \<and>
       reg_activeWorkspaceId (registry s') = Def workspaceId \<and>
       calls s' = calls s @ [SetTimeout 5000, ClearWorkflowVariablesTracking,
                             ResetRegistryInitialization, FetchWorkflowsFromDB])) \<and>
   (Def workspaceId = reg_activeWorkspaceId (registry s) \<or> isWorkspaceTransitioning s \<longrightarrow>
      setActiveWorkspace clock workspaceId s = s)"
  by (simp add: setActiveWorkspace_def Let_def resetWorkflowStores_def setWorkspaceTransitioning_def
      initialHistory_def TRANSITION_TIMEOUT_def)

theorem setActiveWorkspace_resets_witness:
  "wf_blocks (workflowStore (setActiveWorkspace \<lparr>timestampNow = 7, lastSavedNow = 8\<rparr> ''x'' sampleClient)) = [] \<and>
   reg_activeWorkspaceId (registry (setActiveWorkspace \<lparr>timestampNow = 7, lastSavedNow = 8\<rparr> ''x'' sampleClient))
     = Def ''x'' \<and>
   wf_parallels (workflowStore (setActiveWorkspace \<lparr>timestampNow = 7, lastSavedNow = 8\<rparr> ''x'' sampleClient))
     = [(''p1'', JObj [])] \<and>
   setActiveWorkspace \<lparr>timestampNow = 7, lastSavedNow = 8\<rparr> ''w'' sampleClient = sampleClient"
proof -
  have a: "reg_activeWorkspaceId (registry sampleClient) = Def ''w''"
    "\<not> isWorkspaceTransitioning sampleClient"
    by (simp_all add: sampleClient_def)
  have p: "wf_parallels (workflowStore (setActiveWorkspace \<lparr>timestampNow = 7, lastSavedNow = 8\<rparr> ''x'' sampleClient))
     = [(''p1'', JObj [])]"
    by (simp add: setActiveWorkspace_def Let_def resetWorkflowStores_def setWorkspaceTransitioning_def
        sampleClient_def sampleStore_def)
  from setActiveWorkspace_resets [of "''x''" sampleClient "\<lparr>timestampNow = 7, lastSavedNow = 8\<rparr>"]
    setActiveWorkspace_resets [of "''w''" sampleClient "\<lparr>timestampNow = 7, lastSavedNow = 8\<rparr>"] a p
  show ?thesis
    by (simp add: Let_def)
qed

section \<open>The deployment status in three places\<close>



end
